theory Spec2Isabelle
  imports Complex_Main
begin

section \<open>Values of the Python program\<close>

text \<open>
  The script \<^verbatim>\<open>process-products.py\<close> works on what \<^verbatim>\<open>json.load\<close> returns: \<^verbatim>\<open>None\<close>,
  booleans, unbounded integers, floats, strings, lists and dicts. A dict is kept as the list
  of its items in insertion order (the order decides the columns of the spreadsheet and the
  key order of the JSON artifact); lookup takes the first binding of a key, and the keys of a
  parsed document are distinct. A float is a finite value or one of the three special values
  that \<^verbatim>\<open>json.load\<close> accepts (\<^verbatim>\<open>NaN\<close>, \<^verbatim>\<open>Infinity\<close>, \<^verbatim>\<open>-Infinity\<close>).
\<close>

datatype pyfloat = Finite rat | PosInf | NegInf | NaN

datatype json =
    JNull
  | JBool bool
  | JInt int
  | JFloat pyfloat
  | JStr string
  | JList "json list"
  | JObj "(string \<times> json) list"

type_synonym pydict = "(string \<times> json) list"

text \<open>
  Every exception the script can raise is a value. \<open>OutOfRange\<close> stands for the failure of
  \<^verbatim>\<open>timestamp_ms / 1000\<close> or of \<^verbatim>\<open>datetime.fromtimestamp\<close> on an instant outside the years
  1 to 9999: Python raises \<^verbatim>\<open>ValueError\<close>, \<^verbatim>\<open>OverflowError\<close> or \<^verbatim>\<open>OSError\<close> there, by
  magnitude and platform, and the script catches none of them.
\<close>

datatype error =
    FileNotFoundError
  | UnicodeDecodeError
  | UnicodeEncodeError
  | JSONDecodeError
  | AttributeError
  | TypeError
  | ValueError
  | OverflowError
  | OutOfRange
  | ImportError
  | CalledProcessError
  | OSError

definition bind_err :: "error + 'a \<Rightarrow> ('a \<Rightarrow> error + 'b) \<Rightarrow> error + 'b" where
  "bind_err r f = (case r of Inl e \<Rightarrow> Inl e | Inr v \<Rightarrow> f v)"

text \<open>Truth value of an object, as \<^verbatim>\<open>if timestamp_ms:\<close> tests it.\<close>

fun truthy :: "json \<Rightarrow> bool" where
  "truthy JNull = False"
| "truthy (JBool b) = b"
| "truthy (JInt n) = (n \<noteq> 0)"
| "truthy (JFloat x) = (x \<noteq> Finite 0)"
| "truthy (JStr s) = (s \<noteq> [])"
| "truthy (JList xs) = (xs \<noteq> [])"
| "truthy (JObj kvs) = (kvs \<noteq> [])"

text \<open>
  \<^verbatim>\<open>obj.get(key, default)\<close>: only a dict has the method; on every other value the attribute
  lookup raises \<^verbatim>\<open>AttributeError\<close>.
\<close>

fun py_get :: "json \<Rightarrow> string \<Rightarrow> json \<Rightarrow> error + json" where
  "py_get (JObj kvs) k d = Inr (case map_of kvs k of None \<Rightarrow> d | Some v \<Rightarrow> v)"
| "py_get _ k d = Inl AttributeError"

text \<open>
  \<^verbatim>\<open>for product in products\<close>: a list yields its elements, a string its characters (each a
  string of length one), a dict its keys; the other values are not iterable.
\<close>

fun py_iter :: "json \<Rightarrow> error + json list" where
  "py_iter (JList xs) = Inr xs"
| "py_iter (JStr s) = Inr (map (\<lambda>c. JStr [c]) s)"
| "py_iter (JObj kvs) = Inr (map (\<lambda>kv. JStr (fst kv)) kvs)"
| "py_iter _ = Inl TypeError"

section \<open>The platform\<close>

text \<open>
  What the script takes from its runtime and does not define itself is a parameter:
  the offset of local time from UTC at an instant (the process's time zone), the conversion
  of a float to whole epoch seconds (\<^verbatim>\<open>x / 1000\<close> in IEEE arithmetic, rounded to microseconds
  by \<^verbatim>\<open>fromtimestamp\<close>, of which \<^verbatim>\<open>%S\<close> shows the whole seconds), the JSON parser and printer,
  the outcome of the \<^verbatim>\<open>pip install\<close> subprocess (its exit status, and whether \<^verbatim>\<open>openpyxl\<close>
  can be imported afterwards), the failure of \<^verbatim>\<open>to_excel\<close> on a frame and a path for a reason
  other than a missing backend (a destination that cannot be opened, a cell the backend
  cannot store), the failure of \<^verbatim>\<open>open(path, 'w')\<close>, whether the C library pads the year
  of \<^verbatim>\<open>%Y\<close> to four digits (glibc does not), and which strings the standard output and a
  UTF-8 file cannot encode (a lone surrogate, which \<^verbatim>\<open>json.load\<close> accepts from an escape;
  the field names and the punctuation of the script are ASCII and always encodable).

  A \<^verbatim>\<open>DataFrame\<close> is its column labels and its rows of cells.
\<close>

record dataframe =
  columns :: "string list"
  cells :: "json list list"

record platform =
  utcoffset :: "int \<Rightarrow> int"
  float_seconds :: "pyfloat \<Rightarrow> error + int"
  pad_year :: bool
  json_loads :: "string \<Rightarrow> json option"
  json_dumps :: "json \<Rightarrow> string"
  unprintable :: "string \<Rightarrow> bool"
  unencodable :: "string \<Rightarrow> bool"
  pip_exit_ok :: bool
  pip_provides :: bool
  excel_error :: "dataframe \<Rightarrow> string \<Rightarrow> error option"
  open_error :: "string \<Rightarrow> error option"

section \<open>Calendar arithmetic of \<^verbatim>\<open>fromtimestamp\<close> and \<^verbatim>\<open>strftime\<close>\<close>

text \<open>
  Days since 1970-01-01 to the proleptic Gregorian date (year, month, day), through the
  day of the 400-year era (\<open>doe\<close>), the year of the era and the day of the year counted
  from the first of March.
\<close>

definition year_of_era :: "int \<Rightarrow> int" where
  "year_of_era doe = (doe - doe div 1460 + doe div 36524 - doe div 146096) div 365"

definition day_of_year :: "int \<Rightarrow> int" where
  "day_of_year doe =
     (let yoe = year_of_era doe in doe - (365 * yoe + yoe div 4 - yoe div 100))"

definition month_of :: "int \<Rightarrow> int" where
  "month_of doy = (let mp = (5 * doy + 2) div 153 in if mp < 10 then mp + 3 else mp - 9)"

definition day_of_month :: "int \<Rightarrow> int" where
  "day_of_month doy = (let mp = (5 * doy + 2) div 153 in doy - (153 * mp + 2) div 5 + 1)"

definition civil_from_days :: "int \<Rightarrow> int \<times> int \<times> int" where
  "civil_from_days z0 =
     (let z = z0 + 719468;
          era = z div 146097;
          doe = z mod 146097;
          doy = day_of_year doe;
          m = month_of doy;
          y = year_of_era doe + era * 400
      in (if m \<le> 2 then y + 1 else y, m, day_of_month doy))"

text \<open>The inverse direction, used to say which instant a printed date denotes.\<close>

definition days_from_civil :: "int \<Rightarrow> int \<Rightarrow> int \<Rightarrow> int" where
  "days_from_civil y0 m d =
     (let y = (if m \<le> 2 then y0 - 1 else y0);
          era = y div 400;
          yoe = y mod 400;
          doy = (153 * (if m > 2 then m - 3 else m + 9) + 2) div 5 + d - 1;
          doe = yoe * 365 + yoe div 4 - yoe div 100 + doy
      in era * 146097 + doe - 719468)"

text \<open>
  A naive \<^verbatim>\<open>datetime\<close> is kept as the count of seconds on its wall clock since
  1970-01-01 00:00:00 of that clock; its fields are read off that count, and the difference
  of two datetimes is the difference of their counts.
\<close>

type_synonym datetime = int

record broken_down =
  tm_year :: int
  tm_mon :: int
  tm_mday :: int
  tm_hour :: int
  tm_min :: int
  tm_sec :: int

definition fields_of :: "datetime \<Rightarrow> broken_down" where
  "fields_of l =
     (let ymd = civil_from_days (l div 86400);
          sod = l mod 86400
      in \<lparr>tm_year = fst ymd, tm_mon = fst (snd ymd), tm_mday = snd (snd ymd),
          tm_hour = sod div 3600, tm_min = sod mod 3600 div 60, tm_sec = sod mod 60\<rparr>)"

text \<open>The instant a set of fields denotes on its own clock (the inverse reading).\<close>

definition epoch_of_fields :: "broken_down \<Rightarrow> int" where
  "epoch_of_fields tm =
     days_from_civil (tm_year tm) (tm_mon tm) (tm_mday tm) * 86400
       + tm_hour tm * 3600 + tm_min tm * 60 + tm_sec tm"

text \<open>\<^verbatim>\<open>time.localtime\<close>: the local wall clock at an epoch second.\<close>

definition localtime :: "platform \<Rightarrow> int \<Rightarrow> datetime" where
  "localtime p t = t + utcoffset p t"

definition year_ok :: "datetime \<Rightarrow> bool" where
  "year_ok l = (1 \<le> tm_year (fields_of l) \<and> tm_year (fields_of l) \<le> 9999)"

text \<open>
  \<^verbatim>\<open>datetime.fromtimestamp\<close> on whole seconds \<open>t\<close>, without a \<^verbatim>\<open>tz\<close> argument: the local
  wall clock at \<open>t\<close> makes the result; to detect a repeated wall-clock hour it builds a second
  datetime 24 hours earlier and, when the offset went down in between, a third one. Each
  construction raises when its year is outside 1 to 9999.
\<close>

definition fromtimestamp :: "platform \<Rightarrow> int \<Rightarrow> error + datetime" where
  "fromtimestamp p t =
     (let result = localtime p t;
          probe1 = localtime p (t - 86400);
          trans = result - probe1 - 86400
      in if \<not> year_ok result then Inl OutOfRange
         else if \<not> year_ok probe1 then Inl OutOfRange
         else if trans < 0 \<and> \<not> year_ok (localtime p (t + trans)) then Inl OutOfRange
         else Inr result)"

definition digit :: "int \<Rightarrow> char" where
  "digit n = ''0123456789'' ! nat (n mod 10)"

definition pad2 :: "int \<Rightarrow> string" where
  "pad2 n = [digit (n div 10), digit n]"

definition pad4 :: "int \<Rightarrow> string" where
  "pad4 n = [digit (n div 1000), digit (n div 100), digit (n div 10), digit n]"

text \<open>The decimal digits of a natural number, without padding (\<^verbatim>\<open>str(n)\<close>).\<close>

function str_nat :: "nat \<Rightarrow> string" where
  "str_nat n = (if n < 10 then [digit (int n)] else str_nat (n div 10) @ [digit (int n)])"
  by pat_completeness auto
termination
  by (relation "measure id") auto

declare str_nat.simps [simp del]

text \<open>
  \<^verbatim>\<open>%Y\<close> on a year between 1 and 9999: four digits where the C library pads, the plain
  decimal number where it does not (glibc prints the year 1 as \<^verbatim>\<open>1\<close>); from 1000 on the two
  agree.
\<close>

definition year_text :: "platform \<Rightarrow> int \<Rightarrow> string" where
  "year_text p y = (if pad_year p then pad4 y else str_nat (nat y))"

text \<open>\<^verbatim>\<open>strftime('%Y-%m-%d %H:%M:%S')\<close> on a datetime, whose year is between 1 and 9999.\<close>

definition strftime :: "platform \<Rightarrow> datetime \<Rightarrow> string" where
  "strftime p dt =
     (let tm = fields_of dt
      in year_text p (tm_year tm) @ ''-'' @ pad2 (tm_mon tm) @ ''-'' @ pad2 (tm_mday tm) @ '' ''
           @ pad2 (tm_hour tm) @ '':'' @ pad2 (tm_min tm) @ '':'' @ pad2 (tm_sec tm))"

section \<open>\<^verbatim>\<open>format_timestamp\<close>\<close>

text \<open>
  \<^verbatim>\<open>timestamp_ms / 1000\<close> followed by the rounding of \<^verbatim>\<open>fromtimestamp\<close>, as whole epoch seconds.
  True division is defined on numbers only (\<^verbatim>\<open>bool\<close> is a subclass of \<^verbatim>\<open>int\<close>: \<^verbatim>\<open>True / 1000\<close>
  is one millisecond). For an integer the quotient is correctly rounded and
  \<^verbatim>\<open>fromtimestamp\<close> rounds to microseconds, so that within the years 1 to 9999 the whole
  seconds are exactly the floor of the quotient; beyond them every path ends in an error.
\<close>

fun epoch_seconds :: "platform \<Rightarrow> json \<Rightarrow> error + int" where
  "epoch_seconds p (JInt n) = Inr (n div 1000)"
| "epoch_seconds p (JBool b) = Inr 0"
| "epoch_seconds p (JFloat x) = float_seconds p x"
| "epoch_seconds p JNull = Inl TypeError"
| "epoch_seconds p (JStr s) = Inl TypeError"
| "epoch_seconds p (JList xs) = Inl TypeError"
| "epoch_seconds p (JObj kvs) = Inl TypeError"

definition format_timestamp :: "platform \<Rightarrow> json \<Rightarrow> error + json" where
  "format_timestamp p timestamp_ms =
     (if truthy timestamp_ms
      then bind_err (epoch_seconds p timestamp_ms) (\<lambda>t.
           bind_err (fromtimestamp p t) (\<lambda>dt. Inr (JStr (strftime p dt))))
      else Inr (JStr ''''))"

section \<open>\<^verbatim>\<open>process_products\<close>\<close>

text \<open>The body of the loop: the dict built from one element of \<^verbatim>\<open>rows\<close>.\<close>

definition process_product :: "platform \<Rightarrow> json \<Rightarrow> error + pydict" where
  "process_product p product =
     bind_err (py_get product ''productName'' (JStr '''')) (\<lambda>v1.
     bind_err (py_get product ''productKey'' (JStr '''')) (\<lambda>v2.
     bind_err (py_get product ''id'' (JStr '''')) (\<lambda>v3.
     bind_err (py_get product ''vendorId'' (JStr '''')) (\<lambda>v4.
     bind_err (py_get product ''categoryName'' (JStr '''')) (\<lambda>v5.
     bind_err (py_get product ''itemValue'' (JStr '''')) (\<lambda>v6.
     bind_err (py_get product ''tsCreateTime'' JNull) (\<lambda>ts.
     bind_err (format_timestamp p ts) (\<lambda>v7.
       Inr [(''productName'', v1), (''productKey'', v2), (''productId'', v3),
            (''productVendorId'', v4), (''categoryName'', v5), (''categoryValue'', v6),
            (''createdTime'', v7)]))))))))"

text \<open>The loop with its accumulator \<^verbatim>\<open>processed_products\<close>; an exception ends it.\<close>

fun process_loop :: "platform \<Rightarrow> json list \<Rightarrow> pydict list \<Rightarrow> error + pydict list" where
  "process_loop p [] processed_products = Inr processed_products"
| "process_loop p (product # rest) processed_products =
     (case process_product p product of
        Inl e \<Rightarrow> Inl e
      | Inr processed_product \<Rightarrow>
          process_loop p rest (processed_products @ [processed_product]))"

text \<open>
  The part of \<^verbatim>\<open>process_products\<close> after the file is parsed:
  \<^verbatim>\<open>products = data.get('rows', [])\<close> and the loop over it.
\<close>

definition process_data :: "platform \<Rightarrow> json \<Rightarrow> error + pydict list" where
  "process_data p data =
     bind_err (py_get data ''rows'' (JList [])) (\<lambda>products.
     bind_err (py_iter products) (\<lambda>items. process_loop p items []))"

section \<open>Files, output and the two writers\<close>

text \<open>
  The state the script acts on: the files by path, the arguments of the \<^verbatim>\<open>print\<close> calls so
  far, which of the two packages can be imported, and the calls made to the outside
  (spreadsheet writes attempted, installer runs, JSON dumps), in order. A file holds a text,
  a workbook, or the beginning of a text whose writing was cut short.
\<close>

datatype artifact = TextFile string | ExcelFile dataframe | Truncated

datatype call = ToExcel string | PipInstall | JsonDump string

record world =
  files :: "string \<Rightarrow> artifact option"
  stdout :: "string list"
  pandas :: bool
  openpyxl :: bool
  calls :: "call list"

definition print :: "string \<Rightarrow> world \<Rightarrow> world" where
  "print s w = w\<lparr>stdout := stdout w @ [s]\<rparr>"

definition called :: "call \<Rightarrow> world \<Rightarrow> world" where
  "called c w = w\<lparr>calls := calls w @ [c]\<rparr>"

text \<open>
  The strings of a value: those it holds and the keys of the dicts inside it. The strings
  of a record built by the loop are those of its seven values (its keys are the field names
  written in the script).
\<close>

primrec json_strings :: "json \<Rightarrow> string list" where
  "json_strings JNull = []"
| "json_strings (JBool b) = []"
| "json_strings (JInt n) = []"
| "json_strings (JFloat x) = []"
| "json_strings (JStr s) = [s]"
| "json_strings (JList xs) = concat (map json_strings xs)"
| "json_strings (JObj kvs) =
     concat (map (\<lambda>kss. fst kss # snd kss) (map (map_prod id json_strings) kvs))"

definition record_strings :: "pydict \<Rightarrow> string list" where
  "record_strings d = concat (map (\<lambda>kv. json_strings (snd kv)) d)"

text \<open>
  Printing a record fails when the standard output cannot encode one of its strings, and
  dumping a list of records to a UTF-8 file fails when UTF-8 cannot encode one of theirs.
\<close>

definition print_fails :: "platform \<Rightarrow> pydict \<Rightarrow> bool" where
  "print_fails p d = list_ex (unprintable p) (record_strings d)"

definition dump_fails :: "platform \<Rightarrow> pydict list \<Rightarrow> bool" where
  "dump_fails p products = list_ex (\<lambda>d. list_ex (unencodable p) (record_strings d)) products"

text \<open>
  \<^verbatim>\<open>with open(json_file_path, 'r', encoding='utf-8') as file: data = json.load(file)\<close>.
  A spreadsheet container is not UTF-8 text, and a JSON list cut short is not a document.
\<close>

definition load_json :: "platform \<Rightarrow> world \<Rightarrow> string \<Rightarrow> error + json" where
  "load_json p w path =
     (case files w path of
        None \<Rightarrow> Inl FileNotFoundError
      | Some (ExcelFile df) \<Rightarrow> Inl UnicodeDecodeError
      | Some Truncated \<Rightarrow> Inl JSONDecodeError
      | Some (TextFile s) \<Rightarrow>
          (case json_loads p s of None \<Rightarrow> Inl JSONDecodeError | Some data \<Rightarrow> Inr data))"

definition process_products :: "platform \<Rightarrow> world \<Rightarrow> string \<Rightarrow> error + pydict list" where
  "process_products p w json_file_path =
     bind_err (load_json p w json_file_path) (process_data p)"

text \<open>
  \<^verbatim>\<open>pd.DataFrame(products)\<close> on a list of dicts: the columns are the keys in the order in
  which they first occur, and a dict without a column's key has \<^verbatim>\<open>NaN\<close> in that cell.
\<close>

definition first_occurrences :: "'a list \<Rightarrow> 'a list" where
  "first_occurrences xs = rev (remdups (rev xs))"

definition DataFrame :: "pydict list \<Rightarrow> dataframe" where
  "DataFrame products =
     (let cols = first_occurrences (concat (map (map fst) products))
      in \<lparr>columns = cols,
          cells = map (\<lambda>d. map (\<lambda>c. case map_of d c of None \<Rightarrow> JFloat NaN | Some v \<Rightarrow> v) cols)
                      products\<rparr>)"

text \<open>
  \<^verbatim>\<open>df.to_excel(output_path, index=False, engine='openpyxl')\<close>: the engine is imported first
  (\<^verbatim>\<open>ImportError\<close> when it is missing, before the destination is opened); the sheet written
  has the column labels as its header row, one row per row of the frame and no index
  column. What a write that fails for another reason leaves at the path is not modelled.
\<close>

definition to_excel :: "platform \<Rightarrow> dataframe \<Rightarrow> string \<Rightarrow> world \<Rightarrow> error option \<times> world" where
  "to_excel p df output_path w =
     (let w1 = called (ToExcel output_path) w
      in if \<not> openpyxl w1 then (Some ImportError, w1)
         else (case excel_error p df output_path of
                 Some e \<Rightarrow> (Some e, w1)
               | None \<Rightarrow> (None, w1\<lparr>files := (files w1)(output_path \<mapsto> ExcelFile df)\<rparr>)))"

definition save_to_excel :: "platform \<Rightarrow> pydict list \<Rightarrow> string \<Rightarrow> world \<Rightarrow> error option \<times> world" where
  "save_to_excel p products output_path w =
     (let df = DataFrame products
      in case to_excel p df output_path w of
           (Some e, w1) \<Rightarrow> (Some e, w1)
         | (None, w1) \<Rightarrow> (None, print (''Excel file saved to: '' @ output_path) w1))"

text \<open>
  \<^verbatim>\<open>json.dump(products, file, indent=2, ensure_ascii=False)\<close> into the file opened for
  writing: the artifact is the printer's text of the whole list, in order. With
  \<^verbatim>\<open>ensure_ascii=False\<close> the strings are written as they are, and a string that UTF-8 cannot
  encode raises \<^verbatim>\<open>UnicodeEncodeError\<close> in the middle of the dump; closing the file then leaves
  the text written so far.
\<close>

definition save_to_json :: "platform \<Rightarrow> pydict list \<Rightarrow> string \<Rightarrow> world \<Rightarrow> error option \<times> world" where
  "save_to_json p products output_path w =
     (case open_error p output_path of
        Some e \<Rightarrow> (Some e, w)
      | None \<Rightarrow>
          (let w1 = called (JsonDump output_path) w
           in if dump_fails p products
              then (Some UnicodeEncodeError, w1\<lparr>files := (files w1)(output_path \<mapsto> Truncated)\<rparr>)
              else (None, print (''JSON file saved to: '' @ output_path)
                            (w1\<lparr>files := (files w1)(output_path \<mapsto>
                                   TextFile (json_dumps p (JList (map JObj products))))\<rparr>))))"

section \<open>The main program\<close>

definition input_file :: string where
  "input_file = ''/Users/zlinoliver/Desktop/response_new.json''"

definition excel_output :: string where
  "excel_output = ''/Users/zlinoliver/Desktop/products.xlsx''"

definition json_output :: string where
  "json_output = ''/Users/zlinoliver/Desktop/products_formatted.json''"

text \<open>Lines 76 to 78: the JSON artifact and the closing line.\<close>

definition main_finish :: "platform \<Rightarrow> pydict list \<Rightarrow> world \<Rightarrow> error option \<times> world" where
  "main_finish p products w =
     (case save_to_json p products json_output w of
        (Some e, w1) \<Rightarrow> (Some e, w1)
      | (None, w1) \<Rightarrow>
          (None, print (CHR 0x0A # ''Total products processed: '' @ str_nat (length products)) w1))"

text \<open>
  Lines 67 to 74: the spreadsheet write inside \<^verbatim>\<open>try\<close>; the handler of \<^verbatim>\<open>ImportError\<close> runs
  \<^verbatim>\<open>pip install pandas openpyxl\<close> through \<^verbatim>\<open>subprocess.check_call\<close>, which raises
  \<^verbatim>\<open>CalledProcessError\<close> on a non-zero exit status, and calls \<^verbatim>\<open>save_to_excel\<close> again,
  outside any \<^verbatim>\<open>try\<close>.
\<close>

definition main_excel :: "platform \<Rightarrow> pydict list \<Rightarrow> world \<Rightarrow> error option \<times> world" where
  "main_excel p products w =
     (case save_to_excel p products excel_output w of
        (None, w1) \<Rightarrow> (None, w1)
      | (Some e, w1) \<Rightarrow>
          (if e = ImportError
           then (let w2 = print ''pandas or openpyxl not installed. Installing required packages...'' w1;
                     w3 = called PipInstall w2
                 in if \<not> pip_exit_ok p then (Some CalledProcessError, w3)
                    else save_to_excel p products excel_output
                           (w3\<lparr>openpyxl := openpyxl w3 \<or> pip_provides p\<rparr>))
           else (Some e, w1)))"

text \<open>Lines 63 to 78: the two writes, the second only after the first has succeeded.\<close>

definition main_write :: "platform \<Rightarrow> pydict list \<Rightarrow> world \<Rightarrow> error option \<times> world" where
  "main_write p products w =
     (case main_excel p products w of
        (Some e, w1) \<Rightarrow> (Some e, w1)
      | (None, w1) \<Rightarrow> main_finish p products w1)"

text \<open>
  The script from its first line: \<^verbatim>\<open>import pandas as pd\<close> at module level, then the block
  under \<^verbatim>\<open>if __name__ == "__main__"\<close>. Line 61 prints the first record with
  \<^verbatim>\<open>ensure_ascii=False\<close>: a string that the standard output cannot encode raises
  \<^verbatim>\<open>UnicodeEncodeError\<close> there, before any write. The result is the uncaught exception, if
  any, and the final state.
\<close>

definition main :: "platform \<Rightarrow> world \<Rightarrow> error option \<times> world" where
  "main p w =
     (if \<not> pandas w then (Some ImportError, w)
      else case process_products p w input_file of
             Inl e \<Rightarrow> (Some e, w)
           | Inr products \<Rightarrow>
               (let w1 = print (''Processed '' @ str_nat (length products) @ '' products'') w;
                    w2 = print (CHR 0x0A # ''Sample product data:'') w1
                in case products of
                     [] \<Rightarrow> main_write p products w2
                   | first # others \<Rightarrow>
                       if print_fails p first
                       then (Some UnicodeEncodeError, w2)
                       else main_write p products (print (json_dumps p (JObj first)) w2)))"

section \<open>The schema of the specification and example inputs\<close>

text \<open>
  The specification names seven source keys and seven output fields, and describes the
  projection of a field as an optional-field accessor with a default.
\<close>

definition source_keys :: "string list" where
  "source_keys = [''productName'', ''productKey'', ''id'', ''vendorId'', ''categoryName'',
                  ''itemValue'', ''tsCreateTime'']"

definition output_fields :: "string list" where
  "output_fields = [''productName'', ''productKey'', ''productId'', ''productVendorId'',
                    ''categoryName'', ''categoryValue'', ''createdTime'']"

definition field_or :: "pydict \<Rightarrow> string \<Rightarrow> json \<Rightarrow> json" where
  "field_or r k d = (case map_of r k of None \<Rightarrow> d | Some v \<Rightarrow> v)"

text \<open>The document \<^verbatim>\<open>{"rows": [...]}\<close>.\<close>

definition rows_document :: "json list \<Rightarrow> json" where
  "rows_document rows = JObj [(''rows'', JList rows)]"

text \<open>The record of the specification's end-to-end scenario.\<close>

definition widget :: pydict where
  "widget = [(''productName'', JStr ''Widget''), (''id'', JInt 7),
             (''tsCreateTime'', JInt 1700000000000)]"

text \<open>
  The pattern \<^verbatim>\<open>YYYY-MM-DD HH:MM:SS\<close>: nineteen characters, digits everywhere but at the
  two hyphens, the space and the two colons.
\<close>

definition is_digit :: "char \<Rightarrow> bool" where
  "is_digit c = (c \<in> set ''0123456789'')"

definition matches_pattern :: "string \<Rightarrow> bool" where
  "matches_pattern s =
     (length s = 19
      \<and> (\<forall>i \<in> set [0, 1, 2, 3, 5, 6, 8, 9, 11, 12, 14, 15, 17, 18]. is_digit (s ! i))
      \<and> s ! 4 = CHR ''-'' \<and> s ! 7 = CHR ''-'' \<and> s ! 10 = CHR '' ''
      \<and> s ! 13 = CHR '':'' \<and> s ! 16 = CHR '':'')"

text \<open>The values on which \<^verbatim>\<open>/\<close> is defined: integers, floats and booleans.\<close>

definition is_number :: "json \<Rightarrow> bool" where
  "is_number v = (case v of JBool b \<Rightarrow> True | JInt n \<Rightarrow> True | JFloat x \<Rightarrow> True | _ \<Rightarrow> False)"






text \<open>
  Example inputs and their results: three source records in a row, the record that the
  loop makes of the Widget record in UTC, and the record it makes of \<^verbatim>\<open>{"id": NaN}\<close>.
\<close>

definition three_rows :: "json list" where
  "three_rows =
     [JObj [(''productName'', JStr ''Anchor''), (''tsCreateTime'', JInt 0)],
      JObj widget,
      JObj [(''productName'', JStr ''Cable''), (''vendorId'', JInt 3)]]"

definition widget_record :: pydict where
  "widget_record =
     [(''productName'', JStr ''Widget''), (''productKey'', JStr ''''),
      (''productId'', JInt 7), (''productVendorId'', JStr ''''),
      (''categoryName'', JStr ''''), (''categoryValue'', JStr ''''),
      (''createdTime'', JStr ''2023-11-14 22:13:20'')]"

definition nan_record :: pydict where
  "nan_record =
     [(''productName'', JStr ''''), (''productKey'', JStr ''''),
      (''productId'', JFloat NaN), (''productVendorId'', JStr ''''),
      (''categoryName'', JStr ''''), (''categoryValue'', JStr ''''),
      (''createdTime'', JStr '''')]"

text \<open>The texts that \<^verbatim>\<open>json.dump\<close> with \<^verbatim>\<open>indent=2\<close> writes for the two one-record lists.\<close>

definition widget_text :: string where
  \<open>widget_text =
     ''[\<newline>  {\<newline>    "productName": "Widget",\<newline>    "productKey": "",\<newline>    "productId": 7,\<newline>    "productVendorId": "",\<newline>    "categoryName": "",\<newline>    "categoryValue": "",\<newline>    "createdTime": "2023-11-14 22:13:20"\<newline>  }\<newline>]''\<close>

definition nan_text :: string where
  \<open>nan_text =
     ''[\<newline>  {\<newline>    "productName": "",\<newline>    "productKey": "",\<newline>    "productId": NaN,\<newline>    "productVendorId": "",\<newline>    "categoryName": "",\<newline>    "categoryValue": "",\<newline>    "createdTime": ""\<newline>  }\<newline>]''\<close>

text \<open>
  An example platform for the closed instances: the process runs in UTC on glibc, floats
  are converted in exact arithmetic (division by 1000, rounding to the nearest microsecond
  with ties to even, whole seconds of the result), the parser knows the documents listed
  and rejects every other text, the printer knows the two lists above and leaves every
  other text empty, every string can be encoded, the installer succeeds and no write fails.
\<close>

definition round_half_even :: "rat \<Rightarrow> int" where
  "round_half_even x =
     (let f = \<lfloor>x\<rfloor>; d = x - of_int f
      in if d < 1 / 2 then f else if 1 / 2 < d then f + 1 else if even f then f else f + 1)"

definition example_documents :: "(string \<times> json) list" where
  \<open>example_documents =
     [(''{}'', JObj []),
      (''{"rows": []}'', rows_document []),
      (''{"rows": [{"productName": "Widget", "id": 7, "tsCreateTime": 1700000000000}]}'',
       rows_document [JObj widget]),
      (''{"rows": [{"tsCreateTime": "abc"}]}'',
       rows_document [JObj [(''tsCreateTime'', JStr ''abc'')]]),
      (''{"rows": [{"productName": "Anchor", "tsCreateTime": 0}, {"productName": "Widget", "id": 7, "tsCreateTime": 1700000000000}, {"productName": "Cable", "vendorId": 3}]}'',
       rows_document three_rows),
      (''{"rows": [{"id": NaN}]}'', rows_document [JObj [(''id'', JFloat NaN)]]),
      (widget_text, JList [JObj widget_record]),
      (nan_text, JList [JObj nan_record])]\<close>

definition example_texts :: "(json \<times> string) list" where
  "example_texts =
     [(JList [JObj widget_record], widget_text), (JList [JObj nan_record], nan_text)]"

definition example_platform :: platform where
  "example_platform =
     \<lparr>utcoffset = (\<lambda>t. 0),
      float_seconds = (\<lambda>x. case x of
                              Finite q \<Rightarrow> Inr (round_half_even (q * 1000) div 1000000)
                            | NaN \<Rightarrow> Inl ValueError
                            | PosInf \<Rightarrow> Inl OverflowError
                            | NegInf \<Rightarrow> Inl OverflowError),
      pad_year = False,
      json_loads = map_of example_documents,
      json_dumps = (\<lambda>j. case map_of example_texts j of None \<Rightarrow> '''' | Some s \<Rightarrow> s),
      unprintable = (\<lambda>s. False),
      unencodable = (\<lambda>s. False),
      pip_exit_ok = True,
      pip_provides = True,
      excel_error = (\<lambda>df path. None),
      open_error = (\<lambda>path. None)\<rparr>"

text \<open>A machine with both packages installed and the given text in the input file.\<close>

definition example_world :: "string \<Rightarrow> world" where
  "example_world s =
     \<lparr>files = [input_file \<mapsto> TextFile s], stdout = [], pandas = True, openpyxl = True,
      calls = []\<rparr>"

section \<open>Properties of the loop and of the projection\<close>

lemma process_loop_acc:
  "process_loop p rows acc = Inr out \<longleftrightarrow>
     (\<exists>ys. out = acc @ ys \<and> list_all2 (\<lambda>r n. process_product p r = Inr n) rows ys)"
proof (induction rows arbitrary: acc)
  case Nil
  show ?case by auto
next
  case (Cons r rows)
  show ?case
  proof (cases "process_product p r")
    case (Inl e)
    then show ?thesis by (auto simp: list_all2_Cons1)
  next
    case (Inr n)
    then show ?thesis by (auto simp: Cons.IH list_all2_Cons1)
  qed
qed

lemma process_loop_iff:
  "process_loop p rows [] = Inr out \<longleftrightarrow>
     list_all2 (\<lambda>r n. process_product p r = Inr n) rows out"
  by (simp add: process_loop_acc)

lemma process_data_rows:
  "map_of kvs ''rows'' = Some (JList rows) \<Longrightarrow>
     process_data p (JObj kvs) = process_loop p rows []"
  by (simp add: process_data_def bind_err_def)

lemma process_data_rows_document:
  "process_data p (rows_document rows) = process_loop p rows []"
  by (simp add: rows_document_def process_data_rows)

lemma process_loop_single:
  "process_loop p [r] [] = bind_err (process_product p r) (\<lambda>n. Inr [n])"
  by (simp add: bind_err_def split: sum.split)

lemma process_product_obj:
  "process_product p (JObj r) =
     bind_err (format_timestamp p (field_or r ''tsCreateTime'' JNull)) (\<lambda>v7.
       Inr [(''productName'', field_or r ''productName'' (JStr '''')),
            (''productKey'', field_or r ''productKey'' (JStr '''')),
            (''productId'', field_or r ''id'' (JStr '''')),
            (''productVendorId'', field_or r ''vendorId'' (JStr '''')),
            (''categoryName'', field_or r ''categoryName'' (JStr '''')),
            (''categoryValue'', field_or r ''itemValue'' (JStr '''')),
            (''createdTime'', v7)])"
  by (simp add: process_product_def bind_err_def field_or_def)

lemma example_format_1700000000000:
  "format_timestamp example_platform (JInt 1700000000000) = Inr (JStr ''2023-11-14 22:13:20'')"
  by code_simp

lemma example_process_widget:
  "process_product example_platform (JObj widget) =
     Inr [(''productName'', JStr ''Widget''), (''productKey'', JStr ''''),
          (''productId'', JInt 7), (''productVendorId'', JStr ''''),
          (''categoryName'', JStr ''''), (''categoryValue'', JStr ''''),
          (''createdTime'', JStr ''2023-11-14 22:13:20'')]"
  by (simp add: process_product_obj example_format_1700000000000 bind_err_def field_or_def
      widget_def)

section \<open>Claims about \<^verbatim>\<open>format_timestamp\<close> on falsy input\<close>

text \<open>
  Claim C5. For every absent or falsy input value, \<^verbatim>\<open>format_timestamp\<close> returns the empty
  string: for every value that Python takes as false, for the integer 0 and for \<^verbatim>\<open>None\<close> in
  particular, and for the value that \<^verbatim>\<open>product.get('tsCreateTime')\<close> yields when the record
  has no such key.
\<close>

theorem format_timestamp_falsy:
  "(\<not> truthy v \<longrightarrow> format_timestamp p v = Inr (JStr ''''))
   \<and> format_timestamp p (JInt 0) = Inr (JStr '''')
   \<and> format_timestamp p JNull = Inr (JStr '''')
   \<and> (map_of r ''tsCreateTime'' = None \<longrightarrow>
        bind_err (py_get (JObj r) ''tsCreateTime'' JNull) (format_timestamp p) = Inr (JStr ''''))"
  by (simp add: format_timestamp_def bind_err_def)

theorem format_timestamp_falsy_witness:
  "\<not> truthy (JFloat (Finite 0))
   \<and> format_timestamp example_platform (JFloat (Finite 0)) = Inr (JStr '''')
   \<and> map_of [(''id'', JInt 7)] ''tsCreateTime'' = None
   \<and> bind_err (py_get (JObj [(''id'', JInt 7)]) ''tsCreateTime'' JNull)
        (format_timestamp example_platform) = Inr (JStr '''')"
proof -
  have h1: "\<not> truthy (JFloat (Finite 0))" by simp
  have h2: "map_of [(''id'', JInt 7)] ''tsCreateTime'' = None" by simp
  from format_timestamp_falsy [of "JFloat (Finite 0)" example_platform "[(''id'', JInt 7)]"] h1 h2
  show ?thesis by blast
qed

section \<open>Claims about the sequence returned by \<^verbatim>\<open>process_products\<close>\<close>

text \<open>
  Claim C1. When the input file holds a document whose \<^verbatim>\<open>rows\<close> is a list,
  \<^verbatim>\<open>process_products\<close> returns a list \<open>out\<close> exactly when \<open>out\<close> has the length of \<^verbatim>\<open>rows\<close> and
  its element at each position is what the loop body makes of the element of \<^verbatim>\<open>rows\<close> at
  that position: same length, same order, and each output record a function of its own
  source record alone.
\<close>

theorem process_products_length_order:
  assumes "files w path = Some (TextFile s)"
    and "json_loads p s = Some (JObj kvs)"
    and "map_of kvs ''rows'' = Some (JList rows)"
  shows "process_products p w path = Inr out \<longleftrightarrow>
           length out = length rows
           \<and> (\<forall>i < length rows. process_product p (rows ! i) = Inr (out ! i))"
proof -
  have "process_products p w path = process_loop p rows []"
    using assms by (simp add: process_products_def load_json_def bind_err_def process_data_rows)
  then show ?thesis
    by (auto simp: process_loop_iff list_all2_conv_all_nth)
qed

theorem process_products_length_order_witness:
  \<open>process_products example_platform
     (example_world
        ''{"rows": [{"productName": "Anchor", "tsCreateTime": 0}, {"productName": "Widget", "id": 7, "tsCreateTime": 1700000000000}, {"productName": "Cable", "vendorId": 3}]}'')
     input_file =
   Inr [[(''productName'', JStr ''Anchor''), (''productKey'', JStr ''''),
         (''productId'', JStr ''''), (''productVendorId'', JStr ''''),
         (''categoryName'', JStr ''''), (''categoryValue'', JStr ''''),
         (''createdTime'', JStr '''')],
        [(''productName'', JStr ''Widget''), (''productKey'', JStr ''''),
         (''productId'', JInt 7), (''productVendorId'', JStr ''''),
         (''categoryName'', JStr ''''), (''categoryValue'', JStr ''''),
         (''createdTime'', JStr ''2023-11-14 22:13:20'')],
        [(''productName'', JStr ''Cable''), (''productKey'', JStr ''''),
         (''productId'', JStr ''''), (''productVendorId'', JInt 3),
         (''categoryName'', JStr ''''), (''categoryValue'', JStr ''''),
         (''createdTime'', JStr '''')]]\<close>
proof -
  let ?s = \<open>''{"rows": [{"productName": "Anchor", "tsCreateTime": 0}, {"productName": "Widget", "id": 7, "tsCreateTime": 1700000000000}, {"productName": "Cable", "vendorId": 3}]}''\<close>
  let ?out = "[[(''productName'', JStr ''Anchor''), (''productKey'', JStr ''''),
         (''productId'', JStr ''''), (''productVendorId'', JStr ''''),
         (''categoryName'', JStr ''''), (''categoryValue'', JStr ''''),
         (''createdTime'', JStr '''')],
        [(''productName'', JStr ''Widget''), (''productKey'', JStr ''''),
         (''productId'', JInt 7), (''productVendorId'', JStr ''''),
         (''categoryName'', JStr ''''), (''categoryValue'', JStr ''''),
         (''createdTime'', JStr ''2023-11-14 22:13:20'')],
        [(''productName'', JStr ''Cable''), (''productKey'', JStr ''''),
         (''productId'', JStr ''''), (''productVendorId'', JInt 3),
         (''categoryName'', JStr ''''), (''categoryValue'', JStr ''''),
         (''createdTime'', JStr '''')]]"
  have h1: "files (example_world ?s) input_file = Some (TextFile ?s)"
    by (simp add: example_world_def)
  have h2: "json_loads example_platform ?s = Some (JObj [(''rows'', JList three_rows)])"
    by (simp add: example_platform_def example_documents_def rows_document_def)
  have h3: "map_of [(''rows'', JList three_rows)] ''rows'' = Some (JList three_rows)"
    by simp
  have a: "process_product example_platform (three_rows ! 0) = Inr (?out ! 0)"
    by (simp add: three_rows_def process_product_obj field_or_def format_timestamp_def
        bind_err_def)
  have b: "process_product example_platform (three_rows ! 1) = Inr (?out ! 1)"
    by (simp add: three_rows_def example_process_widget)
  have c: "process_product example_platform (three_rows ! 2) = Inr (?out ! 2)"
    by (simp add: three_rows_def process_product_obj field_or_def format_timestamp_def
        bind_err_def)
  have len: "length three_rows = 3" by (simp add: three_rows_def)
  have "length ?out = 3
      \<and> (\<forall>i<3. process_product example_platform (three_rows ! i) = Inr (?out ! i))"
  proof (intro conjI allI impI)
    show "length ?out = 3" by simp
  next
    fix i :: nat
    assume "i < 3"
    then consider "i = 0" | "i = 1" | "i = 2" by linarith
    then show "process_product example_platform (three_rows ! i) = Inr (?out ! i)"
    proof cases
      case 1
      show ?thesis unfolding 1 by (rule a)
    next
      case 2
      show ?thesis unfolding 2 by (rule b)
    next
      case 3
      show ?thesis unfolding 3 by (rule c)
    qed
  qed
  then show ?thesis
    unfolding process_products_length_order [OF h1 h2 h3] len .
qed

section \<open>Claims about the projection of one record\<close>

text \<open>
  Claim C2. On the document \<^verbatim>\<open>{"rows": [r]}\<close>, \<^verbatim>\<open>process_products\<close> returns exactly when
  \<^verbatim>\<open>format_timestamp\<close> does on the record's \<^verbatim>\<open>tsCreateTime\<close>, and it yields one record with
  exactly the seven fields of the schema, read from the source keys \<^verbatim>\<open>productName\<close>,
  \<^verbatim>\<open>productKey\<close>, \<^verbatim>\<open>id\<close>, \<^verbatim>\<open>vendorId\<close>, \<^verbatim>\<open>categoryName\<close>, \<^verbatim>\<open>itemValue\<close> with the empty
  string for a missing key, and \<^verbatim>\<open>createdTime\<close> the result of \<^verbatim>\<open>format_timestamp\<close> on
  \<^verbatim>\<open>tsCreateTime\<close> (on \<^verbatim>\<open>None\<close> when the key is missing). A record with none of the seven keys
  gives the empty string in all seven fields, and the record
  \<^verbatim>\<open>{"productName": "Widget", "id": 7, "tsCreateTime": 1700000000000}\<close> gives
  \<^verbatim>\<open>productName = "Widget"\<close>, \<^verbatim>\<open>productId = 7\<close>, the formatted string of that timestamp as
  \<^verbatim>\<open>createdTime\<close> and the empty string elsewhere.
\<close>

theorem normalize_projects_seven_fields:
  "(process_data p (rows_document [JObj r]) = Inr out \<longleftrightarrow>
      (\<exists>created. format_timestamp p (field_or r ''tsCreateTime'' JNull) = Inr created
         \<and> out =
           [[(''productName'', field_or r ''productName'' (JStr '''')),
             (''productKey'', field_or r ''productKey'' (JStr '''')),
             (''productId'', field_or r ''id'' (JStr '''')),
             (''productVendorId'', field_or r ''vendorId'' (JStr '''')),
             (''categoryName'', field_or r ''categoryName'' (JStr '''')),
             (''categoryValue'', field_or r ''itemValue'' (JStr '''')),
             (''createdTime'', created)]]))
   \<and> ((\<forall>k \<in> set source_keys. map_of r k = None) \<longrightarrow>
      process_data p (rows_document [JObj r]) =
        Inr [[(''productName'', JStr ''''), (''productKey'', JStr ''''),
              (''productId'', JStr ''''), (''productVendorId'', JStr ''''),
              (''categoryName'', JStr ''''), (''categoryValue'', JStr ''''),
              (''createdTime'', JStr '''')]])
   \<and> (format_timestamp p (JInt 1700000000000) = Inr formatted \<longrightarrow>
      process_data p (rows_document [JObj widget]) =
        Inr [[(''productName'', JStr ''Widget''), (''productKey'', JStr ''''),
              (''productId'', JInt 7), (''productVendorId'', JStr ''''),
              (''categoryName'', JStr ''''), (''categoryValue'', JStr ''''),
              (''createdTime'', formatted)]])"
proof (intro conjI impI)
  show "process_data p (rows_document [JObj r]) = Inr out \<longleftrightarrow>
      (\<exists>created. format_timestamp p (field_or r ''tsCreateTime'' JNull) = Inr created
         \<and> out =
           [[(''productName'', field_or r ''productName'' (JStr '''')),
             (''productKey'', field_or r ''productKey'' (JStr '''')),
             (''productId'', field_or r ''id'' (JStr '''')),
             (''productVendorId'', field_or r ''vendorId'' (JStr '''')),
             (''categoryName'', field_or r ''categoryName'' (JStr '''')),
             (''categoryValue'', field_or r ''itemValue'' (JStr '''')),
             (''createdTime'', created)]])"
    by (auto simp: process_data_rows_document process_loop_single process_product_obj
        bind_err_def split: sum.splits)
next
  assume "\<forall>k \<in> set source_keys. map_of r k = None"
  then have "field_or r ''productName'' (JStr '''') = JStr ''''"
    "field_or r ''productKey'' (JStr '''') = JStr ''''"
    "field_or r ''id'' (JStr '''') = JStr ''''"
    "field_or r ''vendorId'' (JStr '''') = JStr ''''"
    "field_or r ''categoryName'' (JStr '''') = JStr ''''"
    "field_or r ''itemValue'' (JStr '''') = JStr ''''"
    "field_or r ''tsCreateTime'' JNull = JNull"
    by (simp_all add: source_keys_def field_or_def)
  then show "process_data p (rows_document [JObj r]) =
        Inr [[(''productName'', JStr ''''), (''productKey'', JStr ''''),
              (''productId'', JStr ''''), (''productVendorId'', JStr ''''),
              (''categoryName'', JStr ''''), (''categoryValue'', JStr ''''),
              (''createdTime'', JStr '''')]]"
    by (simp add: process_data_rows_document process_loop_single process_product_obj bind_err_def
        format_timestamp_def)
next
  assume "format_timestamp p (JInt 1700000000000) = Inr formatted"
  then show "process_data p (rows_document [JObj widget]) =
        Inr [[(''productName'', JStr ''Widget''), (''productKey'', JStr ''''),
              (''productId'', JInt 7), (''productVendorId'', JStr ''''),
              (''categoryName'', JStr ''''), (''categoryValue'', JStr ''''),
              (''createdTime'', formatted)]]"
    by (simp add: process_data_rows_document process_loop_single process_product_obj bind_err_def
        field_or_def widget_def)
qed

theorem normalize_projects_seven_fields_witness:
  "process_data example_platform (rows_document [JObj widget]) =
     Inr [[(''productName'', JStr ''Widget''), (''productKey'', JStr ''''),
           (''productId'', JInt 7), (''productVendorId'', JStr ''''),
           (''categoryName'', JStr ''''), (''categoryValue'', JStr ''''),
           (''createdTime'', JStr ''2023-11-14 22:13:20'')]]
   \<and> process_data example_platform (rows_document [JObj [(''pageNum'', JInt 1)]]) =
     Inr [[(''productName'', JStr ''''), (''productKey'', JStr ''''),
           (''productId'', JStr ''''), (''productVendorId'', JStr ''''),
           (''categoryName'', JStr ''''), (''categoryValue'', JStr ''''),
           (''createdTime'', JStr '''')]]
   \<and> process_data example_platform
       (rows_document [JObj [(''vendorId'', JInt 3), (''itemValue'', JNull)]]) =
     Inr [[(''productName'', JStr ''''), (''productKey'', JStr ''''),
           (''productId'', JStr ''''), (''productVendorId'', JInt 3),
           (''categoryName'', JStr ''''), (''categoryValue'', JNull),
           (''createdTime'', JStr '''')]]"
proof -
  have h1: "format_timestamp example_platform (JInt 1700000000000) =
              Inr (JStr ''2023-11-14 22:13:20'')"
    by (rule example_format_1700000000000)
  have h2: "\<forall>k \<in> set source_keys. map_of [(''pageNum'', JInt 1)] k = None"
    by (simp add: source_keys_def)
  have h3: "format_timestamp example_platform
              (field_or [(''vendorId'', JInt 3), (''itemValue'', JNull)] ''tsCreateTime'' JNull) =
            Inr (JStr '''')"
    by (simp add: field_or_def format_timestamp_def)
  from normalize_projects_seven_fields
         [of example_platform "[(''pageNum'', JInt 1)]" "[]" "JStr ''2023-11-14 22:13:20''"]
       h1 h2
  have a: "process_data example_platform (rows_document [JObj widget]) =
     Inr [[(''productName'', JStr ''Widget''), (''productKey'', JStr ''''),
           (''productId'', JInt 7), (''productVendorId'', JStr ''''),
           (''categoryName'', JStr ''''), (''categoryValue'', JStr ''''),
           (''createdTime'', JStr ''2023-11-14 22:13:20'')]]"
    and b: "process_data example_platform (rows_document [JObj [(''pageNum'', JInt 1)]]) =
     Inr [[(''productName'', JStr ''''), (''productKey'', JStr ''''),
           (''productId'', JStr ''''), (''productVendorId'', JStr ''''),
           (''categoryName'', JStr ''''), (''categoryValue'', JStr ''''),
           (''createdTime'', JStr '''')]]"
    by blast+
  from normalize_projects_seven_fields
         [of example_platform "[(''vendorId'', JInt 3), (''itemValue'', JNull)]"
             "[[(''productName'', JStr ''''), (''productKey'', JStr ''''),
                (''productId'', JStr ''''), (''productVendorId'', JInt 3),
                (''categoryName'', JStr ''''), (''categoryValue'', JNull),
                (''createdTime'', JStr '''')]]"]
       h3
  have c: "process_data example_platform
       (rows_document [JObj [(''vendorId'', JInt 3), (''itemValue'', JNull)]]) =
     Inr [[(''productName'', JStr ''''), (''productKey'', JStr ''''),
           (''productId'', JStr ''''), (''productVendorId'', JInt 3),
           (''categoryName'', JStr ''''), (''categoryValue'', JNull),
           (''createdTime'', JStr '''')]]"
    by (simp add: field_or_def)
  from a b c show ?thesis by simp
qed

section \<open>Dependence on the seven source keys only\<close>

lemma process_product_fields:
  assumes "process_product p r = Inr d"
  shows "map fst d = output_fields"
proof (cases r)
  case (JObj kvs)
  with assms show ?thesis
    by (auto simp: process_product_obj bind_err_def output_fields_def split: sum.splits)
qed (use assms in \<open>simp_all add: process_product_def bind_err_def\<close>)

lemma process_loop_fields:
  assumes "process_loop p items [] = Inr out" and "d \<in> set out"
  shows "map fst d = output_fields"
proof -
  from assms(1) have "list_all2 (\<lambda>r n. process_product p r = Inr n) items out"
    by (simp add: process_loop_iff)
  with assms(2) obtain r where "process_product p r = Inr d"
    by (auto simp: list_all2_conv_all_nth in_set_conv_nth)
  then show ?thesis by (rule process_product_fields)
qed

lemma process_data_fields:
  assumes "process_data p data = Inr out" and "d \<in> set out"
  shows "map fst d = output_fields"
proof -
  from assms(1) obtain items where "process_loop p items [] = Inr out"
    by (auto simp: process_data_def bind_err_def split: sum.splits)
  with assms(2) show ?thesis by (rule process_loop_fields[rotated])
qed

lemma process_product_agree:
  assumes "\<forall>k \<in> set source_keys. map_of r1 k = map_of r2 k"
  shows "process_product p (JObj r1) = process_product p (JObj r2)"
proof -
  from assms have "field_or r1 k d = field_or r2 k d" if "k \<in> set source_keys" for k d
    using that by (simp add: field_or_def)
  then have "field_or r1 ''productName'' d = field_or r2 ''productName'' d"
    "field_or r1 ''productKey'' d = field_or r2 ''productKey'' d"
    "field_or r1 ''id'' d = field_or r2 ''id'' d"
    "field_or r1 ''vendorId'' d = field_or r2 ''vendorId'' d"
    "field_or r1 ''categoryName'' d = field_or r2 ''categoryName'' d"
    "field_or r1 ''itemValue'' d = field_or r2 ''itemValue'' d"
    "field_or r1 ''tsCreateTime'' d = field_or r2 ''tsCreateTime'' d" for d
    by (simp_all add: source_keys_def)
  then show ?thesis by (simp add: process_product_obj)
qed

lemma process_loop_agree:
  assumes "list_all2 (\<lambda>r1 r2. \<forall>k \<in> set source_keys. map_of r1 k = map_of r2 k) rs1 rs2"
  shows "process_loop p (map JObj rs1) acc = process_loop p (map JObj rs2) acc"
  using assms
proof (induction rs1 rs2 arbitrary: acc rule: list_all2_induct)
  case Nil
  show ?case by simp
next
  case (Cons r1 rs1 r2 rs2)
  from Cons.hyps(1) have "process_product p (JObj r1) = process_product p (JObj r2)"
    by (rule process_product_agree)
  then show ?case by (simp add: Cons.IH split: sum.split)
qed

text \<open>
  Claim C10. Two sequences of records that agree, position by position, on the seven
  source keys (same presence, same value) give the same result, whatever other keys the
  records carry; and every record of a result has exactly the fields \<^verbatim>\<open>productName\<close>,
  \<^verbatim>\<open>productKey\<close>, \<^verbatim>\<open>productId\<close>, \<^verbatim>\<open>productVendorId\<close>, \<^verbatim>\<open>categoryName\<close>, \<^verbatim>\<open>categoryValue\<close>,
  \<^verbatim>\<open>createdTime\<close>, in this order.
\<close>

theorem normalize_depends_on_seven_keys:
  "(list_all2 (\<lambda>r1 r2. \<forall>k \<in> set source_keys. map_of r1 k = map_of r2 k) rs1 rs2 \<longrightarrow>
      process_data p (rows_document (map JObj rs1)) =
      process_data p (rows_document (map JObj rs2)))
   \<and> (process_data p data = Inr out \<longrightarrow> (\<forall>d \<in> set out. map fst d = output_fields))"
  by (auto simp: process_data_rows_document process_loop_agree process_data_fields)

theorem normalize_depends_on_seven_keys_witness:
  "process_data example_platform
     (rows_document [JObj ((''secret'', JStr ''x'') # widget), JObj []]) =
   process_data example_platform
     (rows_document [JObj (widget @ [(''pageNum'', JInt 1)]), JObj [(''note'', JNull)]])
   \<and> process_data example_platform (rows_document [JObj widget]) =
       Inr [[(''productName'', JStr ''Widget''), (''productKey'', JStr ''''),
             (''productId'', JInt 7), (''productVendorId'', JStr ''''),
             (''categoryName'', JStr ''''), (''categoryValue'', JStr ''''),
             (''createdTime'', JStr ''2023-11-14 22:13:20'')]]
   \<and> list_all (\<lambda>d. map fst d = output_fields)
       [[(''productName'', JStr ''Widget''), (''productKey'', JStr ''''),
         (''productId'', JInt 7), (''productVendorId'', JStr ''''),
         (''categoryName'', JStr ''''), (''categoryValue'', JStr ''''),
         (''createdTime'', JStr ''2023-11-14 22:13:20'')]]"
proof -
  let ?out = "[[(''productName'', JStr ''Widget''), (''productKey'', JStr ''''),
         (''productId'', JInt 7), (''productVendorId'', JStr ''''),
         (''categoryName'', JStr ''''), (''categoryValue'', JStr ''''),
         (''createdTime'', JStr ''2023-11-14 22:13:20'')]]"
  have h1: "list_all2 (\<lambda>r1 r2. \<forall>k \<in> set source_keys. map_of r1 k = map_of r2 k)
              [(''secret'', JStr ''x'') # widget, []]
              [widget @ [(''pageNum'', JInt 1)], [(''note'', JNull)]]"
    by (simp add: source_keys_def widget_def)
  have h2: "process_data example_platform (rows_document [JObj widget]) = Inr ?out"
    by (simp add: process_data_rows_document process_loop_single example_process_widget
        bind_err_def)
  from normalize_depends_on_seven_keys
         [of "[(''secret'', JStr ''x'') # widget, []]"
             "[widget @ [(''pageNum'', JInt 1)], [(''note'', JNull)]]"
             example_platform "rows_document [JObj widget]" ?out]
  have "process_data example_platform
          (rows_document (map JObj [(''secret'', JStr ''x'') # widget, []])) =
        process_data example_platform
          (rows_document (map JObj [widget @ [(''pageNum'', JInt 1)], [(''note'', JNull)]]))"
    and "\<forall>d \<in> set ?out. map fst d = output_fields"
    using h1 h2 by blast+
  then show ?thesis using h2 by (simp add: list_all_iff)
qed

section \<open>The calendar within the years 1 to 9999\<close>

lemma year_unfold:
  "fst (civil_from_days z) =
     (if month_of (day_of_year ((z + 719468) mod 146097)) \<le> 2
      then year_of_era ((z + 719468) mod 146097) + (z + 719468) div 146097 * 400 + 1
      else year_of_era ((z + 719468) mod 146097) + (z + 719468) div 146097 * 400)"
  by (simp only: civil_from_days_def Let_def fst_conv if_distrib[of fst] cong: if_cong)

lemma year_of_era_nonneg:
  assumes "0 \<le> doe"
  shows "0 \<le> year_of_era doe"
proof -
  have "doe div 1460 \<le> doe" using assms by linarith
  moreover have "doe div 146096 \<le> doe div 36524" using assms by linarith
  ultimately have "0 \<le> doe - doe div 1460 + doe div 36524 - doe div 146096" by linarith
  then show ?thesis unfolding year_of_era_def by simp
qed

lemma year_of_era_le:
  assumes "0 \<le> doe" "doe \<le> 146096"
  shows "year_of_era doe \<le> 399"
proof -
  have "doe - doe div 1460 + doe div 36524 - doe div 146096 \<le> 145999"
  proof (cases "doe = 146096")
    case True
    then show ?thesis by simp
  next
    case False
    then have le: "doe \<le> 146095" using assms by simp
    then have b: "doe div 36524 \<le> 3" by linarith
    have c: "0 \<le> doe div 146096" using assms by linarith
    show ?thesis
    proof (cases "146000 \<le> doe")
      case True
      then have "100 \<le> doe div 1460" by linarith
      then show ?thesis using b c le by linarith
    next
      case False
      have "0 \<le> doe div 1460" using assms by linarith
      then show ?thesis using b c False by linarith
    qed
  qed
  then show ?thesis unfolding year_of_era_def by linarith
qed

lemma year_lower:
  assumes "- 719162 \<le> z"
  shows "1 \<le> fst (civil_from_days z)"
proof -
  define zz where "zz = z + 719468"
  define era where "era = zz div 146097"
  define doe where "doe = zz mod 146097"
  have year: "fst (civil_from_days z) =
      (if month_of (day_of_year doe) \<le> 2 then year_of_era doe + era * 400 + 1
       else year_of_era doe + era * 400)"
    unfolding zz_def era_def doe_def by (rule year_unfold)
  have zz: "306 \<le> zz" using assms by (simp add: zz_def)
  have doe: "0 \<le> doe" "doe \<le> 146096" by (simp_all add: doe_def)
  have split: "zz = era * 146097 + doe" by (simp add: era_def doe_def)
  have era: "0 \<le> era" using zz unfolding era_def by linarith
  have yoe0: "0 \<le> year_of_era doe" using doe(1) by (rule year_of_era_nonneg)
  show ?thesis
  proof (cases "1 \<le> era")
    case True
    then have "400 \<le> era * 400" by simp
    then show ?thesis using yoe0 unfolding year by (simp only: split: if_split) linarith
  next
    case False
    then have e0: "era = 0" using era by simp
    then have dz: "306 \<le> doe" using zz split by simp
    show ?thesis
    proof (cases "365 \<le> doe")
      case True
      have "doe div 1460 \<le> doe - 365" using True by linarith
      moreover have "doe div 146096 \<le> doe div 36524" using doe by linarith
      ultimately have "365 \<le> doe - doe div 1460 + doe div 36524 - doe div 146096" by linarith
      then have "1 \<le> year_of_era doe" unfolding year_of_era_def by linarith
      then show ?thesis unfolding year e0 by (simp only: split: if_split) linarith
    next
      case False
      then have small: "doe \<le> 364" by simp
      have a: "doe div 1460 = 0" "doe div 36524 = 0" "doe div 146096 = 0"
        using dz small by simp_all
      have y0: "year_of_era doe = 0" unfolding year_of_era_def a using dz small by simp
      then have doy: "day_of_year doe = doe" by (simp only: day_of_year_def Let_def)
      define mp where "mp = (5 * doe + 2) div 153"
      have mp: "10 \<le> mp" "mp \<le> 11" unfolding mp_def using dz small by linarith+
      have "month_of doe = (if mp < 10 then mp + 3 else mp - 9)"
        by (simp only: month_of_def Let_def mp_def)
      then have "month_of doe \<le> 2" using mp by simp
      then show ?thesis unfolding year e0 y0 doy by simp
    qed
  qed
qed


lemma year_upper:
  assumes "z \<le> 2932896"
  shows "fst (civil_from_days z) \<le> 9999"
proof -
  define zz where "zz = z + 719468"
  define era where "era = zz div 146097"
  define doe where "doe = zz mod 146097"
  have year: "fst (civil_from_days z) =
      (if month_of (day_of_year doe) \<le> 2 then year_of_era doe + era * 400 + 1
       else year_of_era doe + era * 400)"
    unfolding zz_def era_def doe_def by (rule year_unfold)
  have zz: "zz \<le> 3652364" using assms by (simp add: zz_def)
  have doe: "0 \<le> doe" "doe \<le> 146096" by (simp_all add: doe_def)
  have split: "zz = era * 146097 + doe" by (simp add: era_def doe_def)
  have era: "era \<le> 24" using zz unfolding era_def by linarith
  have yoe399: "year_of_era doe \<le> 399" using doe by (rule year_of_era_le)
  show ?thesis
  proof (cases "era \<le> 23")
    case True
    then have "era * 400 \<le> 9200" by simp
    then show ?thesis using yoe399 unfolding year by (simp only: split: if_split) linarith
  next
    case False
    then have e24: "era = 24" using era by simp
    then have dz: "doe \<le> 146036" using zz split by simp
    show ?thesis
    proof (cases "year_of_era doe \<le> 398")
      case True
      then show ?thesis unfolding year e24 by (simp only: split: if_split) linarith
    next
      case False
      then have y: "year_of_era doe = 399" using yoe399 by simp
      have b: "doe div 36524 \<le> 3" using dz by linarith
      have c: "0 \<le> doe div 146096" using doe by linarith
      have "145635 \<le> doe - doe div 1460 + doe div 36524 - doe div 146096"
        using y unfolding year_of_era_def by linarith
      then have f: "145632 \<le> doe - doe div 1460" using b c by linarith
      have "144540 \<le> doe"
      proof (rule ccontr)
        assume "\<not> 144540 \<le> doe"
        then have "doe < 144540" by simp
        moreover have "0 \<le> doe div 1460" using doe by linarith
        ultimately show False using f by linarith
      qed
      then have "99 \<le> doe div 1460" by linarith
      then have lo: "145731 \<le> doe" using f by linarith
      have doy: "day_of_year doe = doe - 145731"
        by (simp only: day_of_year_def Let_def y)
      define doy' where "doy' = doe - 145731"
      define mp where "mp = (5 * doy' + 2) div 153"
      have d: "0 \<le> doy'" "doy' \<le> 305" unfolding doy'_def using lo dz by simp_all
      have mp: "0 \<le> mp" "mp \<le> 9" unfolding mp_def using d by linarith+
      have "month_of doy' = (if mp < 10 then mp + 3 else mp - 9)"
        by (simp only: month_of_def Let_def mp_def)
      then have "\<not> month_of (doe - 145731) \<le> 2" using mp unfolding doy'_def by simp
      then show ?thesis unfolding year e24 y doy by simp
    qed
  qed
qed

lemma tm_year_fields_of: "tm_year (fields_of l) = fst (civil_from_days (l div 86400))"
  by (simp add: fields_of_def Let_def)

lemma year_ok_range:
  assumes "- 62135596800 \<le> l" and "l \<le> 253402300799"
  shows "year_ok l"
proof -
  have "- 719162 \<le> l div 86400" using assms(1) by linarith
  moreover have "l div 86400 \<le> 2932896" using assms(2) by linarith
  ultimately show ?thesis
    unfolding year_ok_def tm_year_fields_of by (simp add: year_lower year_upper)
qed

lemma fromtimestamp_in_range:
  assumes zone: "\<forall>t. \<bar>utcoffset p t\<bar> \<le> 86400"
    and "- 62135337600 \<le> t" and "t \<le> 253402214399"
  shows "fromtimestamp p t = Inr (t + utcoffset p t)"
proof -
  have o1: "\<bar>utcoffset p t\<bar> \<le> 86400" and o2: "\<bar>utcoffset p (t - 86400)\<bar> \<le> 86400"
    using zone by blast+
  define trans where "trans = localtime p t - localtime p (t - 86400) - 86400"
  have o3: "\<bar>utcoffset p (t + trans)\<bar> \<le> 86400" using zone by blast
  have tr: "- 172800 \<le> trans" "trans \<le> 172800"
    using o1 o2 by (simp_all add: trans_def localtime_def)
  have "year_ok (localtime p t)"
    unfolding localtime_def using o1 assms(2,3) by (intro year_ok_range) linarith+
  moreover have "year_ok (localtime p (t - 86400))"
    unfolding localtime_def using o2 assms(2,3) by (intro year_ok_range) linarith+
  moreover have "trans < 0 \<longrightarrow> year_ok (localtime p (t + trans))"
    unfolding localtime_def using o3 tr assms(2,3) by (intro impI year_ok_range) linarith+
  ultimately show ?thesis
    by (simp add: fromtimestamp_def Let_def trans_def[symmetric]) (simp add: localtime_def)
qed

lemma format_timestamp_int_in_range:
  assumes "\<forall>t. \<bar>utcoffset p t\<bar> \<le> 86400"
    and "- 62135337600000 \<le> n" and "n < 253402214400000"
  shows "\<exists>s. format_timestamp p (JInt n) = Inr (JStr s)"
proof -
  have "- 62135337600 \<le> n div 1000" using assms(2) by linarith
  moreover have "n div 1000 \<le> 253402214399" using assms(3) by linarith
  ultimately have "fromtimestamp p (n div 1000) = Inr (n div 1000 + utcoffset p (n div 1000))"
    using assms(1) by (intro fromtimestamp_in_range)
  then show ?thesis by (simp add: format_timestamp_def bind_err_def)
qed

section \<open>When \<^verbatim>\<open>process_products\<close> fails\<close>

lemma process_loop_total:
  assumes "\<forall>r \<in> set rows. \<exists>d. process_product p r = Inr d"
  shows "\<exists>out. process_loop p rows acc = Inr out \<and> length out = length acc + length rows"
  using assms
proof (induction rows arbitrary: acc)
  case Nil
  show ?case by simp
next
  case (Cons r rows)
  from Cons.prems obtain d where d: "process_product p r = Inr d" by auto
  from Cons.prems have rest: "\<forall>r \<in> set rows. \<exists>d. process_product p r = Inr d" by simp
  from Cons.IH [OF rest, of "acc @ [d]"] obtain out
    where "process_loop p rows (acc @ [d]) = Inr out"
      and "length out = length (acc @ [d]) + length rows"
    by blast
  then show ?case by (simp add: d)
qed

lemma format_timestamp_non_number:
  assumes "truthy v" and "\<not> is_number v"
  shows "format_timestamp p v = Inl TypeError"
  using assms by (cases v) (simp_all add: format_timestamp_def bind_err_def is_number_def)

text \<open>
  Claim C3, as stated, fails: on the valid document \<^verbatim>\<open>{"rows": [{"tsCreateTime": "abc"}]}\<close>
  the string is truthy, \<^verbatim>\<open>"abc" / 1000\<close> raises \<^verbatim>\<open>TypeError\<close>, and nothing catches it.
\<close>

theorem normalize_fails_on_string_timestamp:
  \<open>json_loads example_platform ''{"rows": [{"tsCreateTime": "abc"}]}'' =
     Some (rows_document [JObj [(''tsCreateTime'', JStr ''abc'')]])
   \<and> process_products example_platform
       (example_world ''{"rows": [{"tsCreateTime": "abc"}]}'') input_file = Inl TypeError\<close>
  by (simp add: process_products_def load_json_def example_world_def example_platform_def
      example_documents_def bind_err_def process_data_rows_document process_loop_single
      process_product_obj field_or_def format_timestamp_def)

text \<open>
  Claim C3, amended. In a time zone whose offsets stay within a day, when the document is
  an object whose \<^verbatim>\<open>rows\<close> is missing or is a list of objects, and every record's
  \<^verbatim>\<open>tsCreateTime\<close> is absent, falsy, or an integer of milliseconds between 0001-01-04 and
  9999-12-30 (UTC), \<^verbatim>\<open>process_products\<close> returns a list of the length of \<^verbatim>\<open>rows\<close>, whatever the
  other fields hold. A truthy \<^verbatim>\<open>tsCreateTime\<close> that is not a number (a string, a list, a
  dict) raises \<^verbatim>\<open>TypeError\<close> instead of giving the default.
\<close>

theorem normalize_succeeds_on_valid_timestamps:
  assumes "\<forall>t. \<bar>utcoffset p t\<bar> \<le> 86400"
    and "\<forall>r \<in> set rows. \<exists>kvs. r = JObj kvs \<and>
           (\<not> truthy (field_or kvs ''tsCreateTime'' JNull)
            \<or> (\<exists>n. field_or kvs ''tsCreateTime'' JNull = JInt n
                   \<and> - 62135337600000 \<le> n \<and> n < 253402214400000))"
    and "map_of doc ''rows'' = Some (JList rows) \<or> map_of doc ''rows'' = None \<and> rows = []"
  shows "(\<exists>out. process_data p (JObj doc) = Inr out \<and> length out = length rows)
         \<and> (truthy v \<and> \<not> is_number v \<longrightarrow>
              process_data p (rows_document [JObj [(''tsCreateTime'', v)]]) = Inl TypeError)"
proof
  have each: "\<exists>d. process_product p r = Inr d" if "r \<in> set rows" for r
  proof -
    from assms(2) that obtain kvs where r: "r = JObj kvs"
      and ts: "\<not> truthy (field_or kvs ''tsCreateTime'' JNull)
            \<or> (\<exists>n. field_or kvs ''tsCreateTime'' JNull = JInt n
                   \<and> - 62135337600000 \<le> n \<and> n < 253402214400000)"
      by blast
    from ts have "\<exists>s. format_timestamp p (field_or kvs ''tsCreateTime'' JNull) = Inr s"
    proof
      assume "\<not> truthy (field_or kvs ''tsCreateTime'' JNull)"
      then show ?thesis by (simp add: format_timestamp_def)
    next
      assume "\<exists>n. field_or kvs ''tsCreateTime'' JNull = JInt n
                   \<and> - 62135337600000 \<le> n \<and> n < 253402214400000"
      then show ?thesis using format_timestamp_int_in_range [OF assms(1)] by fastforce
    qed
    then show ?thesis unfolding r by (auto simp: process_product_obj bind_err_def)
  qed
  then have "\<forall>r \<in> set rows. \<exists>d. process_product p r = Inr d" by blast
  then have "\<exists>out. process_loop p rows [] = Inr out \<and> length out = length rows"
    using process_loop_total [of rows p "[]"] by simp
  moreover have "process_data p (JObj doc) = process_loop p rows []"
    using assms(3) by (auto simp: process_data_def bind_err_def)
  ultimately show "\<exists>out. process_data p (JObj doc) = Inr out \<and> length out = length rows"
    by simp
next
  show "truthy v \<and> \<not> is_number v \<longrightarrow>
          process_data p (rows_document [JObj [(''tsCreateTime'', v)]]) = Inl TypeError"
    by (auto simp: process_data_rows_document process_loop_single process_product_obj
        bind_err_def field_or_def format_timestamp_non_number)
qed

theorem normalize_succeeds_on_valid_timestamps_witness:
  "(\<exists>out. process_data example_platform
            (JObj [(''total'', JInt 2),
                   (''rows'', JList [JObj widget, JObj [(''productName'', JList [])]])]) = Inr out
          \<and> length out = 2)
   \<and> process_data example_platform (rows_document [JObj [(''tsCreateTime'', JStr ''abc'')]]) =
       Inl TypeError"
proof -
  have h1: "\<forall>t. \<bar>utcoffset example_platform t\<bar> \<le> 86400"
    by (simp add: example_platform_def)
  have h2: "\<forall>r \<in> set [JObj widget, JObj [(''productName'', JList [])]]. \<exists>kvs. r = JObj kvs \<and>
           (\<not> truthy (field_or kvs ''tsCreateTime'' JNull)
            \<or> (\<exists>n. field_or kvs ''tsCreateTime'' JNull = JInt n
                   \<and> - 62135337600000 \<le> n \<and> n < 253402214400000))"
    by (simp add: field_or_def widget_def)
  have h3: "map_of [(''total'', JInt 2),
                    (''rows'', JList [JObj widget, JObj [(''productName'', JList [])]])] ''rows'' =
              Some (JList [JObj widget, JObj [(''productName'', JList [])]])
            \<or> map_of [(''total'', JInt 2),
                    (''rows'', JList [JObj widget, JObj [(''productName'', JList [])]])] ''rows'' =
              None \<and> [JObj widget, JObj [(''productName'', JList [])]] = []"
    by simp
  have h4: "truthy (JStr ''abc'') \<and> \<not> is_number (JStr ''abc'')"
    by (simp add: is_number_def)
  from normalize_succeeds_on_valid_timestamps [OF h1 h2 h3, of "JStr ''abc''"] h4
  show ?thesis by (simp add: numeral_2_eq_2)
qed

section \<open>The timestamp 1700000000000\<close>

lemma is_digit_digit: "is_digit (digit k)"
proof -
  have "nat (k mod 10) < length ''0123456789''" by simp
  then have "''0123456789'' ! nat (k mod 10) \<in> set ''0123456789''" by (rule nth_mem)
  then show ?thesis unfolding is_digit_def digit_def .
qed

lemma year_text_2023: "year_text p 2023 = ''2023''"
proof -
  have "pad4 2023 = ''2023''" by code_simp
  moreover have "str_nat (nat 2023) = ''2023''" by code_simp
  ultimately show ?thesis by (simp add: year_text_def)
qed

lemma matches_pattern_2023_11:
  "matches_pattern (''2023-11-'' @ pad2 d @ '' '' @ pad2 h @ '':'' @ pad2 m @ '':'' @ pad2 s)"
  unfolding matches_pattern_def pad2_def
  by (simp add: is_digit_digit) (simp add: is_digit_def)

lemma time_of_day_recompose:
  fixes sod :: int
  shows "sod div 3600 * 3600 + sod mod 3600 div 60 * 60 + sod mod 60 = sod"
proof -
  have "sod mod 3600 div 60 * 60 + sod mod 3600 mod 60 = sod mod 3600"
    by (rule div_mult_mod_eq)
  moreover have "sod mod 3600 mod 60 = sod mod 60" by (simp add: mod_mod_cancel)
  moreover have "sod div 3600 * 3600 + sod mod 3600 = sod" by (rule div_mult_mod_eq)
  ultimately show ?thesis by linarith
qed

lemma fields_of_explicit:
  assumes "civil_from_days (dt div 86400) = (y, m, d)"
  shows "fields_of dt =
      \<lparr>tm_year = y, tm_mon = m, tm_mday = d,
       tm_hour = dt mod 86400 div 3600, tm_min = dt mod 86400 mod 3600 div 60,
       tm_sec = dt mod 86400 mod 60\<rparr>"
  by (simp only: fields_of_def Let_def assms fst_conv snd_conv)

lemma epoch_of_explicit_fields:
  assumes "days_from_civil y m d = dt div 86400"
  shows "epoch_of_fields
      \<lparr>tm_year = y, tm_mon = m, tm_mday = d,
       tm_hour = dt mod 86400 div 3600, tm_min = dt mod 86400 mod 3600 div 60,
       tm_sec = dt mod 86400 mod 60\<rparr> = dt"
proof -
  have "epoch_of_fields
      \<lparr>tm_year = y, tm_mon = m, tm_mday = d,
       tm_hour = dt mod 86400 div 3600, tm_min = dt mod 86400 mod 3600 div 60,
       tm_sec = dt mod 86400 mod 60\<rparr> =
      dt div 86400 * 86400 + (dt mod 86400 div 3600 * 3600
        + dt mod 86400 mod 3600 div 60 * 60 + dt mod 86400 mod 60)"
    by (simp only: epoch_of_fields_def broken_down.simps assms add.assoc)
  also have "\<dots> = dt div 86400 * 86400 + dt mod 86400"
    by (simp only: time_of_day_recompose)
  also have "\<dots> = dt" by (rule div_mult_mod_eq)
  finally show ?thesis .
qed

lemma fields_on_day:
  assumes "dt div 86400 = z"
    and "civil_from_days z = (2023, 11, z - 19661)"
    and "days_from_civil 2023 11 (z - 19661) = z"
  shows "fields_of dt =
           \<lparr>tm_year = 2023, tm_mon = 11, tm_mday = dt div 86400 - 19661,
            tm_hour = dt mod 86400 div 3600, tm_min = dt mod 86400 mod 3600 div 60,
            tm_sec = dt mod 86400 mod 60\<rparr>"
    and "epoch_of_fields
           \<lparr>tm_year = 2023, tm_mon = 11, tm_mday = dt div 86400 - 19661,
            tm_hour = dt mod 86400 div 3600, tm_min = dt mod 86400 mod 3600 div 60,
            tm_sec = dt mod 86400 mod 60\<rparr> = dt"
proof -
  have c: "civil_from_days (dt div 86400) = (2023, 11, dt div 86400 - 19661)"
    unfolding assms(1) by (rule assms(2))
  have d: "days_from_civil 2023 11 (dt div 86400 - 19661) = dt div 86400"
    unfolding assms(1) by (rule assms(3))
  show "fields_of dt =
           \<lparr>tm_year = 2023, tm_mon = 11, tm_mday = dt div 86400 - 19661,
            tm_hour = dt mod 86400 div 3600, tm_min = dt mod 86400 mod 3600 div 60,
            tm_sec = dt mod 86400 mod 60\<rparr>"
    by (rule fields_of_explicit [OF c])
  show "epoch_of_fields
           \<lparr>tm_year = 2023, tm_mon = 11, tm_mday = dt div 86400 - 19661,
            tm_hour = dt mod 86400 div 3600, tm_min = dt mod 86400 mod 3600 div 60,
            tm_sec = dt mod 86400 mod 60\<rparr> = dt"
    by (rule epoch_of_explicit_fields [OF d])
qed

lemma fields_near_1700000000:
  assumes "1699913600 \<le> dt" and "dt \<le> 1700086400"
  shows "fields_of dt =
           \<lparr>tm_year = 2023, tm_mon = 11, tm_mday = dt div 86400 - 19661,
            tm_hour = dt mod 86400 div 3600, tm_min = dt mod 86400 mod 3600 div 60,
            tm_sec = dt mod 86400 mod 60\<rparr>"
    and "dt div 86400 - 19661 \<in> {13, 14, 15}"
    and "epoch_of_fields
           \<lparr>tm_year = 2023, tm_mon = 11, tm_mday = dt div 86400 - 19661,
            tm_hour = dt mod 86400 div 3600, tm_min = dt mod 86400 mod 3600 div 60,
            tm_sec = dt mod 86400 mod 60\<rparr> = dt"
proof -
  have c: "civil_from_days 19674 = (2023, 11, 19674 - 19661)"
    "civil_from_days 19675 = (2023, 11, 19675 - 19661)"
    "civil_from_days 19676 = (2023, 11, 19676 - 19661)"
    by code_simp+
  have d: "days_from_civil 2023 11 (19674 - 19661) = 19674"
    "days_from_civil 2023 11 (19675 - 19661) = 19675"
    "days_from_civil 2023 11 (19676 - 19661) = 19676"
    by code_simp+
  have "19674 \<le> dt div 86400" "dt div 86400 \<le> 19676" using assms by linarith+
  then have z: "dt div 86400 = 19674 \<or> dt div 86400 = 19675 \<or> dt div 86400 = 19676"
    by linarith
  then show "dt div 86400 - 19661 \<in> {13, 14, 15}" by auto
  from z show "fields_of dt =
           \<lparr>tm_year = 2023, tm_mon = 11, tm_mday = dt div 86400 - 19661,
            tm_hour = dt mod 86400 div 3600, tm_min = dt mod 86400 mod 3600 div 60,
            tm_sec = dt mod 86400 mod 60\<rparr>"
    using fields_on_day(1) [OF _ c(1) d(1)] fields_on_day(1) [OF _ c(2) d(2)]
      fields_on_day(1) [OF _ c(3) d(3)]
    by blast
  from z show "epoch_of_fields
           \<lparr>tm_year = 2023, tm_mon = 11, tm_mday = dt div 86400 - 19661,
            tm_hour = dt mod 86400 div 3600, tm_min = dt mod 86400 mod 3600 div 60,
            tm_sec = dt mod 86400 mod 60\<rparr> = dt"
    using fields_on_day(2) [OF _ c(1) d(1)] fields_on_day(2) [OF _ c(2) d(2)]
      fields_on_day(2) [OF _ c(3) d(3)]
    by blast
qed

lemma strftime_near_1700000000:
  assumes "1699913600 \<le> dt" and "dt \<le> 1700086400"
  shows "strftime p dt =
           ''2023-11-'' @ pad2 (dt div 86400 - 19661) @ '' ''
             @ pad2 (dt mod 86400 div 3600) @ '':''
             @ pad2 (dt mod 86400 mod 3600 div 60) @ '':''
             @ pad2 (dt mod 86400 mod 60)"
proof -
  have "pad2 11 = ''11''" by code_simp
  then show ?thesis
    unfolding strftime_def Let_def fields_near_1700000000(1) [OF assms] broken_down.simps
      year_text_2023
    by simp
qed

lemma local_texts_1700000000:
  "''2023-11-'' @ pad2 (1700000000 div 86400 - 19661) @ '' ''
     @ pad2 (1700000000 mod 86400 div 3600) @ '':''
     @ pad2 (1700000000 mod 86400 mod 3600 div 60) @ '':''
     @ pad2 (1700000000 mod 86400 mod 60) = ''2023-11-14 22:13:20''"
  "''2023-11-'' @ pad2 (1700032400 div 86400 - 19661) @ '' ''
     @ pad2 (1700032400 mod 86400 div 3600) @ '':''
     @ pad2 (1700032400 mod 86400 mod 3600 div 60) @ '':''
     @ pad2 (1700032400 mod 86400 mod 60) = ''2023-11-15 07:13:20''"
  "''2023-11-'' @ pad2 (1699982000 div 86400 - 19661) @ '' ''
     @ pad2 (1699982000 mod 86400 div 3600) @ '':''
     @ pad2 (1699982000 mod 86400 mod 3600 div 60) @ '':''
     @ pad2 (1699982000 mod 86400 mod 60) = ''2023-11-14 17:13:20''"
  by code_simp+

text \<open>
  Claim C9. In every time zone whose offsets stay within a day, \<^verbatim>\<open>format_timestamp\<close> on
  1700000000000 returns the text \<^verbatim>\<open>2023-11-DD HH:MM:SS\<close> whose day, hour, minute and second
  are, on two digits each, those of the local wall clock \<open>l\<close> = 1700000000 seconds plus the
  zone's offset at that instant: the text has the pattern \<^verbatim>\<open>YYYY-MM-DD HH:MM:SS\<close>
  (nineteen characters, zero-padded digits and the five separators), the day is 13, 14 or
  15, and the printed fields denote exactly \<open>l\<close>, to the second. The result is a function of
  the zone alone: \<^verbatim>\<open>2023-11-14 22:13:20\<close> in UTC, \<^verbatim>\<open>2023-11-15 07:13:20\<close> nine hours east
  of it, \<^verbatim>\<open>2023-11-14 17:13:20\<close> five hours west.
\<close>

theorem format_timestamp_1700000000000:
  assumes "\<forall>t. \<bar>utcoffset p t\<bar> \<le> 86400"
  shows "(let l = 1700000000 + utcoffset p 1700000000;
              day = l div 86400 - 19661;
              hour = l mod 86400 div 3600;
              minute = l mod 86400 mod 3600 div 60;
              second = l mod 86400 mod 60;
              text = ''2023-11-'' @ pad2 day @ '' '' @ pad2 hour @ '':'' @ pad2 minute
                       @ '':'' @ pad2 second
          in format_timestamp p (JInt 1700000000000) = Inr (JStr text)
             \<and> matches_pattern text
             \<and> day \<in> {13, 14, 15}
             \<and> epoch_of_fields \<lparr>tm_year = 2023, tm_mon = 11, tm_mday = day, tm_hour = hour,
                                 tm_min = minute, tm_sec = second\<rparr> = l
             \<and> (utcoffset p 1700000000 = 0 \<longrightarrow> text = ''2023-11-14 22:13:20'')
             \<and> (utcoffset p 1700000000 = 32400 \<longrightarrow> text = ''2023-11-15 07:13:20'')
             \<and> (utcoffset p 1700000000 = - 18000 \<longrightarrow> text = ''2023-11-14 17:13:20''))"
proof -
  define l where "l = 1700000000 + utcoffset p 1700000000"
  have off: "\<bar>utcoffset p 1700000000\<bar> \<le> 86400" using assms by blast
  have range: "1699913600 \<le> l" "l \<le> 1700086400" using off by (simp_all add: l_def)
  have "fromtimestamp p 1700000000 = Inr l"
    unfolding l_def using assms by (intro fromtimestamp_in_range) simp_all
  then have "format_timestamp p (JInt 1700000000000) = Inr (JStr (strftime p l))"
    by (simp add: format_timestamp_def bind_err_def)
  then have a: "format_timestamp p (JInt 1700000000000) =
      Inr (JStr (''2023-11-'' @ pad2 (l div 86400 - 19661) @ '' ''
             @ pad2 (l mod 86400 div 3600) @ '':''
             @ pad2 (l mod 86400 mod 3600 div 60) @ '':''
             @ pad2 (l mod 86400 mod 60)))"
    by (simp only: strftime_near_1700000000 [OF range])
  have z: "utcoffset p 1700000000 = 0 \<Longrightarrow> l = 1700000000"
    and e: "utcoffset p 1700000000 = 32400 \<Longrightarrow> l = 1700032400"
    and w: "utcoffset p 1700000000 = - 18000 \<Longrightarrow> l = 1699982000"
    by (simp_all add: l_def)
  show ?thesis
    unfolding Let_def l_def [symmetric]
  proof (intro conjI impI)
    show "format_timestamp p (JInt 1700000000000) =
      Inr (JStr (''2023-11-'' @ pad2 (l div 86400 - 19661) @ '' ''
             @ pad2 (l mod 86400 div 3600) @ '':''
             @ pad2 (l mod 86400 mod 3600 div 60) @ '':''
             @ pad2 (l mod 86400 mod 60)))"
      by (rule a)
    show "matches_pattern (''2023-11-'' @ pad2 (l div 86400 - 19661) @ '' ''
             @ pad2 (l mod 86400 div 3600) @ '':''
             @ pad2 (l mod 86400 mod 3600 div 60) @ '':''
             @ pad2 (l mod 86400 mod 60))"
      by (rule matches_pattern_2023_11)
    show "l div 86400 - 19661 \<in> {13, 14, 15}"
      by (rule fields_near_1700000000(2) [OF range])
    show "epoch_of_fields \<lparr>tm_year = 2023, tm_mon = 11, tm_mday = l div 86400 - 19661,
            tm_hour = l mod 86400 div 3600, tm_min = l mod 86400 mod 3600 div 60,
            tm_sec = l mod 86400 mod 60\<rparr> = l"
      by (rule fields_near_1700000000(3) [OF range])
  next
    assume "utcoffset p 1700000000 = 0"
    then show "''2023-11-'' @ pad2 (l div 86400 - 19661) @ '' ''
             @ pad2 (l mod 86400 div 3600) @ '':''
             @ pad2 (l mod 86400 mod 3600 div 60) @ '':''
             @ pad2 (l mod 86400 mod 60) = ''2023-11-14 22:13:20''"
      by (simp only: z local_texts_1700000000)
  next
    assume "utcoffset p 1700000000 = 32400"
    then show "''2023-11-'' @ pad2 (l div 86400 - 19661) @ '' ''
             @ pad2 (l mod 86400 div 3600) @ '':''
             @ pad2 (l mod 86400 mod 3600 div 60) @ '':''
             @ pad2 (l mod 86400 mod 60) = ''2023-11-15 07:13:20''"
      by (simp only: e local_texts_1700000000)
  next
    assume "utcoffset p 1700000000 = - 18000"
    then show "''2023-11-'' @ pad2 (l div 86400 - 19661) @ '' ''
             @ pad2 (l mod 86400 div 3600) @ '':''
             @ pad2 (l mod 86400 mod 3600 div 60) @ '':''
             @ pad2 (l mod 86400 mod 60) = ''2023-11-14 17:13:20''"
      by (simp only: w local_texts_1700000000)
  qed
qed

theorem format_timestamp_1700000000000_witness:
  "format_timestamp (example_platform\<lparr>utcoffset := \<lambda>t. 32400\<rparr>) (JInt 1700000000000) =
     Inr (JStr ''2023-11-15 07:13:20'')
   \<and> format_timestamp example_platform (JInt 1700000000000) =
     Inr (JStr ''2023-11-14 22:13:20'')
   \<and> format_timestamp (example_platform\<lparr>utcoffset := \<lambda>t. - 18000, pad_year := True\<rparr>)
       (JInt 1700000000000) = Inr (JStr ''2023-11-14 17:13:20'')
   \<and> matches_pattern ''2023-11-15 07:13:20''
   \<and> epoch_of_fields \<lparr>tm_year = 2023, tm_mon = 11, tm_mday = 15, tm_hour = 7, tm_min = 13,
                       tm_sec = 20\<rparr> = 1700000000 + 32400"
proof -
  let ?tokyo = "example_platform\<lparr>utcoffset := \<lambda>t. 32400\<rparr>"
  let ?lima = "example_platform\<lparr>utcoffset := \<lambda>t. - 18000, pad_year := True\<rparr>"
  let ?l = "1700000000 + 32400 :: int"
  let ?text = "''2023-11-'' @ pad2 (?l div 86400 - 19661) @ '' '' @ pad2 (?l mod 86400 div 3600)
                 @ '':'' @ pad2 (?l mod 86400 mod 3600 div 60) @ '':''
                 @ pad2 (?l mod 86400 mod 60)"
  have h1: "\<forall>t. \<bar>utcoffset ?tokyo t\<bar> \<le> 86400" by simp
  have h2: "\<forall>t. \<bar>utcoffset example_platform t\<bar> \<le> 86400"
    by (simp add: example_platform_def)
  have h3: "\<forall>t. \<bar>utcoffset ?lima t\<bar> \<le> 86400" by simp
  have o1: "utcoffset ?tokyo 1700000000 = 32400" by simp
  have o2: "utcoffset example_platform 1700000000 = 0" by (simp add: example_platform_def)
  have o3: "utcoffset ?lima 1700000000 = - 18000" by simp
  have n: "?l div 86400 - 19661 = 15" "?l mod 86400 div 3600 = 7"
    "?l mod 86400 mod 3600 div 60 = 13" "?l mod 86400 mod 60 = 20"
    by simp_all
  note tokyo = format_timestamp_1700000000000 [OF h1, unfolded Let_def o1]
  from tokyo have t1: "format_timestamp ?tokyo (JInt 1700000000000) = Inr (JStr ?text)"
    by (rule conjunct1)
  from tokyo have t2: "matches_pattern ?text" by blast
  from tokyo have t3: "epoch_of_fields
      \<lparr>tm_year = 2023, tm_mon = 11, tm_mday = ?l div 86400 - 19661,
       tm_hour = ?l mod 86400 div 3600, tm_min = ?l mod 86400 mod 3600 div 60,
       tm_sec = ?l mod 86400 mod 60\<rparr> = ?l"
    by blast
  from tokyo have "(32400::int) = 32400 \<longrightarrow> ?text = ''2023-11-15 07:13:20''" by blast
  then have t4: "?text = ''2023-11-15 07:13:20''" by simp
  note utc = format_timestamp_1700000000000 [OF h2, unfolded Let_def o2]
  from utc have u1: "format_timestamp example_platform (JInt 1700000000000) =
      Inr (JStr (''2023-11-'' @ pad2 ((1700000000 + 0) div 86400 - 19661) @ '' ''
        @ pad2 ((1700000000 + 0) mod 86400 div 3600) @ '':''
        @ pad2 ((1700000000 + 0) mod 86400 mod 3600 div 60) @ '':''
        @ pad2 ((1700000000 + 0) mod 86400 mod 60)))"
    by (rule conjunct1)
  from utc have "(0::int) = 0 \<longrightarrow>
      ''2023-11-'' @ pad2 ((1700000000 + 0) div 86400 - 19661) @ '' ''
        @ pad2 ((1700000000 + 0) mod 86400 div 3600) @ '':''
        @ pad2 ((1700000000 + 0) mod 86400 mod 3600 div 60) @ '':''
        @ pad2 ((1700000000 + 0) mod 86400 mod 60) = ''2023-11-14 22:13:20''"
    by blast
  then have u2: "''2023-11-'' @ pad2 ((1700000000 + 0) div 86400 - 19661) @ '' ''
        @ pad2 ((1700000000 + 0) mod 86400 div 3600) @ '':''
        @ pad2 ((1700000000 + 0) mod 86400 mod 3600 div 60) @ '':''
        @ pad2 ((1700000000 + 0) mod 86400 mod 60) = ''2023-11-14 22:13:20''"
    by simp
  note lima = format_timestamp_1700000000000 [OF h3, unfolded Let_def o3]
  from lima have l1: "format_timestamp ?lima (JInt 1700000000000) =
      Inr (JStr (''2023-11-'' @ pad2 ((1700000000 + - 18000) div 86400 - 19661) @ '' ''
        @ pad2 ((1700000000 + - 18000) mod 86400 div 3600) @ '':''
        @ pad2 ((1700000000 + - 18000) mod 86400 mod 3600 div 60) @ '':''
        @ pad2 ((1700000000 + - 18000) mod 86400 mod 60)))"
    by (rule conjunct1)
  from lima have "(- 18000::int) = - 18000 \<longrightarrow>
      ''2023-11-'' @ pad2 ((1700000000 + - 18000) div 86400 - 19661) @ '' ''
        @ pad2 ((1700000000 + - 18000) mod 86400 div 3600) @ '':''
        @ pad2 ((1700000000 + - 18000) mod 86400 mod 3600 div 60) @ '':''
        @ pad2 ((1700000000 + - 18000) mod 86400 mod 60) = ''2023-11-14 17:13:20''"
    by blast
  then have l2: "''2023-11-'' @ pad2 ((1700000000 + - 18000) div 86400 - 19661) @ '' ''
        @ pad2 ((1700000000 + - 18000) mod 86400 div 3600) @ '':''
        @ pad2 ((1700000000 + - 18000) mod 86400 mod 3600 div 60) @ '':''
        @ pad2 ((1700000000 + - 18000) mod 86400 mod 60) = ''2023-11-14 17:13:20''"
    by simp
  show ?thesis
  proof (intro conjI)
    show "format_timestamp ?tokyo (JInt 1700000000000) = Inr (JStr ''2023-11-15 07:13:20'')"
      using t1 unfolding t4 .
    show "format_timestamp example_platform (JInt 1700000000000) =
        Inr (JStr ''2023-11-14 22:13:20'')"
      using u1 unfolding u2 .
    show "format_timestamp ?lima (JInt 1700000000000) = Inr (JStr ''2023-11-14 17:13:20'')"
      using l1 unfolding l2 .
    show "matches_pattern ''2023-11-15 07:13:20''"
      using t2 unfolding t4 .
    show "epoch_of_fields \<lparr>tm_year = 2023, tm_mon = 11, tm_mday = 15, tm_hour = 7, tm_min = 13,
                       tm_sec = 20\<rparr> = 1700000000 + 32400"
      using t3 unfolding n .
  qed
qed

section \<open>The main program: what runs before and after a failure\<close>

lemma paths_distinct:
  "excel_output \<noteq> json_output" "json_output \<noteq> excel_output"
  "input_file \<noteq> excel_output" "input_file \<noteq> json_output"
  by (simp_all add: excel_output_def json_output_def input_file_def)

lemma world_simps [simp]:
  "calls (print s w) = calls w" "files (print s w) = files w"
  "openpyxl (print s w) = openpyxl w" "pandas (print s w) = pandas w"
  "calls (called c w) = calls w @ [c]" "files (called c w) = files w"
  "openpyxl (called c w) = openpyxl w" "pandas (called c w) = pandas w"
  by (simp_all add: print_def called_def)

lemma save_to_json_outcome:
  "fst (save_to_json p products path w) =
     (case open_error p path of
        Some e \<Rightarrow> Some e
      | None \<Rightarrow> if dump_fails p products then Some UnicodeEncodeError else None)"
  "calls (snd (save_to_json p products path w)) =
     calls w @ (if open_error p path = None then [JsonDump path] else [])"
  "files (snd (save_to_json p products path w)) path =
     (case open_error p path of
        Some e \<Rightarrow> files w path
      | None \<Rightarrow> Some (if dump_fails p products then Truncated
                       else TextFile (json_dumps p (JList (map JObj products)))))"
  "path' \<noteq> path \<Longrightarrow> files (snd (save_to_json p products path w)) path' = files w path'"
  by (simp_all add: save_to_json_def Let_def split: option.split)

lemma main_finish_outcome:
  "fst (main_finish p products w) =
     (case open_error p json_output of
        Some e \<Rightarrow> Some e
      | None \<Rightarrow> if dump_fails p products then Some UnicodeEncodeError else None)"
  "calls (snd (main_finish p products w)) =
     calls w @ (if open_error p json_output = None then [JsonDump json_output] else [])"
  "files (snd (main_finish p products w)) excel_output = files w excel_output"
  "files (snd (main_finish p products w)) json_output =
     (case open_error p json_output of
        Some e \<Rightarrow> files w json_output
      | None \<Rightarrow> Some (if dump_fails p products then Truncated
                       else TextFile (json_dumps p (JList (map JObj products)))))"
proof -
  obtain r w1 where x: "save_to_json p products json_output w = (r, w1)"
    by (cases "save_to_json p products json_output w")
  have r: "r = fst (save_to_json p products json_output w)"
    and w1: "w1 = snd (save_to_json p products json_output w)"
    by (simp_all add: x)
  have m: "fst (main_finish p products w) = r"
    "calls (snd (main_finish p products w)) = calls w1"
    "files (snd (main_finish p products w)) excel_output = files w1 excel_output"
    "files (snd (main_finish p products w)) json_output = files w1 json_output"
    by (cases r; simp add: main_finish_def x)+
  show "fst (main_finish p products w) =
     (case open_error p json_output of
        Some e \<Rightarrow> Some e
      | None \<Rightarrow> if dump_fails p products then Some UnicodeEncodeError else None)"
    unfolding m r by (rule save_to_json_outcome)
  show "calls (snd (main_finish p products w)) =
     calls w @ (if open_error p json_output = None then [JsonDump json_output] else [])"
    unfolding m w1 by (rule save_to_json_outcome)
  show "files (snd (main_finish p products w)) excel_output = files w excel_output"
    unfolding m w1 by (rule save_to_json_outcome(4) [OF paths_distinct(1)])
  show "files (snd (main_finish p products w)) json_output =
     (case open_error p json_output of
        Some e \<Rightarrow> files w json_output
      | None \<Rightarrow> Some (if dump_fails p products then Truncated
                       else TextFile (json_dumps p (JList (map JObj products)))))"
    unfolding m w1 by (rule save_to_json_outcome(3))
qed


lemma main_excel_backend_present:
  assumes "openpyxl w" and "excel_error p (DataFrame products) excel_output = None"
  shows "fst (main_excel p products w) = None"
    and "files (snd (main_excel p products w)) excel_output =
           Some (ExcelFile (DataFrame products))"
    and "calls (snd (main_excel p products w)) = calls w @ [ToExcel excel_output]"
  using assms
  by (simp_all add: main_excel_def save_to_excel_def to_excel_def Let_def called_def print_def)

lemma main_write_outcome:
  "fst (main_write p products w) =
     (case fst (main_excel p products w) of
        Some e \<Rightarrow> Some e
      | None \<Rightarrow> (case open_error p json_output of
                   Some e \<Rightarrow> Some e
                 | None \<Rightarrow> if dump_fails p products then Some UnicodeEncodeError else None))"
  "calls (snd (main_write p products w)) =
     calls (snd (main_excel p products w))
       @ (if fst (main_excel p products w) = None \<and> open_error p json_output = None
          then [JsonDump json_output] else [])"
  "files (snd (main_write p products w)) excel_output =
     files (snd (main_excel p products w)) excel_output"
  "fst (main_excel p products w) \<noteq> None \<Longrightarrow>
     files (snd (main_write p products w)) json_output =
       files (snd (main_excel p products w)) json_output"
  "fst (main_excel p products w) = None \<Longrightarrow>
     files (snd (main_write p products w)) json_output =
       (case open_error p json_output of
          Some e \<Rightarrow> files (snd (main_excel p products w)) json_output
        | None \<Rightarrow> Some (if dump_fails p products then Truncated
                         else TextFile (json_dumps p (JList (map JObj products)))))"
proof -
  obtain r w1 where x: "main_excel p products w = (r, w1)"
    by (cases "main_excel p products w")
  show "fst (main_write p products w) =
     (case fst (main_excel p products w) of
        Some e \<Rightarrow> Some e
      | None \<Rightarrow> (case open_error p json_output of
                   Some e \<Rightarrow> Some e
                 | None \<Rightarrow> if dump_fails p products then Some UnicodeEncodeError else None))"
    unfolding main_write_def x by (cases r) (simp_all add: main_finish_outcome)
  show "calls (snd (main_write p products w)) =
     calls (snd (main_excel p products w))
       @ (if fst (main_excel p products w) = None \<and> open_error p json_output = None
          then [JsonDump json_output] else [])"
    unfolding main_write_def x by (cases r) (simp_all add: main_finish_outcome)
  show "files (snd (main_write p products w)) excel_output =
     files (snd (main_excel p products w)) excel_output"
    unfolding main_write_def x by (cases r) (simp_all add: main_finish_outcome)
  show "fst (main_excel p products w) \<noteq> None \<Longrightarrow>
     files (snd (main_write p products w)) json_output =
       files (snd (main_excel p products w)) json_output"
    unfolding main_write_def x by (cases r) simp_all
  show "fst (main_excel p products w) = None \<Longrightarrow>
     files (snd (main_write p products w)) json_output =
       (case open_error p json_output of
          Some e \<Rightarrow> files (snd (main_excel p products w)) json_output
        | None \<Rightarrow> Some (if dump_fails p products then Truncated
                         else TextFile (json_dumps p (JList (map JObj products)))))"
    unfolding main_write_def x
    by (cases r) (simp_all add: main_finish_outcome split: option.split)
qed

text \<open>
  When the records are read and the first of them, if any, can be printed, the script
  reaches its writes in a state that differs from the initial one by what was printed.
\<close>

lemma main_reaches_write:
  assumes "pandas w" and "process_products p w input_file = Inr products"
    and "\<not> list_ex (print_fails p) (take 1 products)"
  shows "\<exists>w3. calls w3 = calls w \<and> files w3 = files w \<and> openpyxl w3 = openpyxl w
           \<and> main p w = main_write p products w3"
proof (cases products)
  case Nil
  let ?w3 = "print (CHR 0x0A # ''Sample product data:'')
               (print (''Processed '' @ str_nat (length products) @ '' products'') w)"
  have "main p w = main_write p products ?w3"
    using assms(1,2) Nil by (simp add: main_def Let_def)
  moreover have "calls ?w3 = calls w \<and> files ?w3 = files w \<and> openpyxl ?w3 = openpyxl w"
    by simp
  ultimately show ?thesis by blast
next
  case (Cons first others)
  let ?w3 = "print (json_dumps p (JObj first))
               (print (CHR 0x0A # ''Sample product data:'')
                  (print (''Processed '' @ str_nat (length products) @ '' products'') w))"
  from assms(3) Cons have "\<not> print_fails p first" by simp
  then have "main p w = main_write p products ?w3"
    using assms(1,2) Cons by (simp add: main_def Let_def)
  moreover have "calls ?w3 = calls w \<and> files ?w3 = files w \<and> openpyxl ?w3 = openpyxl w"
    by simp
  ultimately show ?thesis by blast
qed

lemma load_json_cases:
  "files w path = None \<Longrightarrow> load_json p w path = Inl FileNotFoundError"
  "files w path = Some (TextFile s) \<Longrightarrow> json_loads p s = None \<Longrightarrow>
     load_json p w path = Inl JSONDecodeError"
  "files w path = Some (TextFile s) \<Longrightarrow> json_loads p s = Some data \<Longrightarrow>
     load_json p w path = Inr data"
  by (simp_all add: load_json_def)

lemma main_process_error:
  assumes "process_products p w input_file = Inl e"
  shows "\<exists>e'. main p w = (Some e', w) \<and> (pandas w \<longrightarrow> e' = e)"
  using assms by (simp add: main_def)

text \<open>
  Claim C7. When the input path is missing, or the file is not a valid JSON document, the
  script ends with an uncaught exception (\<^verbatim>\<open>FileNotFoundError\<close> or \<^verbatim>\<open>JSONDecodeError\<close>) and the
  state is the one it started from: no file has been written, no write attempted, nothing
  printed. The same holds of every exception raised inside \<^verbatim>\<open>process_products\<close>.
\<close>

theorem main_aborts_before_output:
  "((files w input_file = None \<or>
     (\<exists>s. files w input_file = Some (TextFile s) \<and> json_loads p s = None)) \<longrightarrow>
      (\<exists>e. main p w = (Some e, w)
           \<and> (pandas w \<longrightarrow>
                e = (if files w input_file = None then FileNotFoundError else JSONDecodeError))))
   \<and> (process_products p w input_file = Inl e \<longrightarrow>
        (\<exists>e'. main p w = (Some e', w) \<and> (pandas w \<longrightarrow> e' = e)))"
proof (intro conjI impI)
  assume "files w input_file = None \<or>
     (\<exists>s. files w input_file = Some (TextFile s) \<and> json_loads p s = None)"
  then have "process_products p w input_file =
      Inl (if files w input_file = None then FileNotFoundError else JSONDecodeError)"
    by (auto simp: process_products_def bind_err_def load_json_cases)
  then show "\<exists>e. main p w = (Some e, w)
           \<and> (pandas w \<longrightarrow>
                e = (if files w input_file = None then FileNotFoundError else JSONDecodeError))"
    by (rule main_process_error)
next
  assume "process_products p w input_file = Inl e"
  then show "\<exists>e'. main p w = (Some e', w) \<and> (pandas w \<longrightarrow> e' = e)"
    by (rule main_process_error)
qed

theorem main_aborts_before_output_witness:
  "main example_platform (example_world ''<html>not found</html>'') =
     (Some JSONDecodeError, example_world ''<html>not found</html>'')
   \<and> main example_platform ((example_world ''{}'')\<lparr>files := Map.empty\<rparr>) =
     (Some FileNotFoundError, (example_world ''{}'')\<lparr>files := Map.empty\<rparr>)
   \<and> files (snd (main example_platform (example_world ''<html>not found</html>'')))
        excel_output = None
   \<and> files (snd (main example_platform (example_world ''<html>not found</html>'')))
        json_output = None"
proof -
  let ?w1 = "example_world ''<html>not found</html>''"
  let ?w2 = "(example_world ''{}'')\<lparr>files := Map.empty\<rparr>"
  have h1: "files ?w1 input_file = None \<or>
     (\<exists>s. files ?w1 input_file = Some (TextFile s) \<and> json_loads example_platform s = None)"
    by (simp add: example_world_def example_platform_def example_documents_def
        widget_text_def nan_text_def)
  have h2: "files ?w2 input_file = None \<or>
     (\<exists>s. files ?w2 input_file = Some (TextFile s) \<and> json_loads example_platform s = None)"
    by simp
  have p1: "pandas ?w1" and p2: "pandas ?w2" by (simp_all add: example_world_def)
  have n1: "files ?w1 input_file \<noteq> None" by (simp add: example_world_def)
  have n2: "files ?w2 input_file = None" by simp
  from main_aborts_before_output [of ?w1 example_platform] h1 p1 n1
  have a: "main example_platform ?w1 = (Some JSONDecodeError, ?w1)" by auto
  from main_aborts_before_output [of ?w2 example_platform] h2 p2 n2
  have b: "main example_platform ?w2 = (Some FileNotFoundError, ?w2)" by auto
  have c: "files ?w1 excel_output = None" "files ?w1 json_output = None"
    by (simp_all add: example_world_def input_file_def excel_output_def json_output_def)
  from a b c show ?thesis by simp
qed

section \<open>The missing spreadsheet backend\<close>







section \<open>The spreadsheet of an empty result\<close>

lemma first_occurrences_absorb:
  assumes "distinct xs" and "set ys \<subseteq> set xs"
  shows "first_occurrences (xs @ ys) = xs"
proof -
  have "set (rev ys) \<subseteq> set (rev xs)" using assms(2) by simp
  then have "remdups (rev ys @ rev xs) = remdups (rev xs)" by (rule remdups_append)
  also have "\<dots> = rev xs" using assms(1) by (simp add: distinct_remdups_id)
  finally show ?thesis by (simp add: first_occurrences_def)
qed

lemma DataFrame_empty: "DataFrame [] = \<lparr>columns = [], cells = []\<rparr>"
  by (simp add: DataFrame_def first_occurrences_def)

lemma DataFrame_columns:
  assumes "\<forall>d \<in> set out. map fst d = output_fields" and "out \<noteq> []"
  shows "columns (DataFrame out) = output_fields" and "length (cells (DataFrame out)) = length out"
proof -
  from assms(2) obtain d ds where out: "out = d # ds" by (cases out) auto
  have "set (concat (map (map fst) ds)) \<subseteq> set output_fields"
    using assms(1) unfolding out by auto
  moreover have "distinct output_fields" by (simp add: output_fields_def)
  moreover have "concat (map (map fst) out) = output_fields @ concat (map (map fst) ds)"
    using assms(1) unfolding out by simp
  ultimately have "first_occurrences (concat (map (map fst) out)) = output_fields"
    by (simp only: first_occurrences_absorb)
  then show "columns (DataFrame out) = output_fields" by (simp add: DataFrame_def Let_def)
  show "length (cells (DataFrame out)) = length out" by (simp add: DataFrame_def Let_def)
qed

lemma process_data_no_rows:
  assumes "map_of doc ''rows'' = None \<or> map_of doc ''rows'' = Some (JList [])"
  shows "process_data p (JObj doc) = Inr []"
  using assms by (auto simp: process_data_def bind_err_def)

lemma main_no_records:
  assumes "pandas w" and "openpyxl w"
    and "process_products p w input_file = Inr []"
    and "excel_error p (DataFrame []) excel_output = None"
  shows "fst (main p w) = open_error p json_output"
    and "files (snd (main p w)) excel_output = Some (ExcelFile \<lparr>columns = [], cells = []\<rparr>)"
proof -
  have "\<not> list_ex (print_fails p) (take 1 [])" by simp
  from main_reaches_write [OF assms(1,3) this] obtain w3 where
    w3: "openpyxl w3 = openpyxl w"
    and m: "main p w = main_write p [] w3"
    by blast
  from w3 assms(2) have yes: "openpyxl w3" by simp
  have d: "\<not> dump_fails p []" by (simp add: dump_fails_def)
  show "fst (main p w) = open_error p json_output"
    unfolding m main_write_outcome(1) main_excel_backend_present [OF yes assms(4)]
    using d by (simp split: option.split)
  show "files (snd (main p w)) excel_output = Some (ExcelFile \<lparr>columns = [], cells = []\<rparr>)"
    unfolding m main_write_outcome(3) main_excel_backend_present [OF yes assms(4)]
      DataFrame_empty
    by (rule refl)
qed

lemma example_process_empty:
  \<open>process_products example_platform (example_world ''{"rows": []}'') input_file = Inr []\<close>
  by (simp add: process_products_def load_json_def example_world_def example_platform_def
      example_documents_def bind_err_def process_data_rows_document)

text \<open>
  Claim C4, as stated, fails: on \<^verbatim>\<open>{"rows": []}\<close> the result is the empty list and the
  spreadsheet is written, but \<^verbatim>\<open>pd.DataFrame([])\<close> has no columns, so the sheet has no
  header row: its columns are not the seven field names.
\<close>

theorem empty_rows_sheet_has_no_header:
  \<open>process_products example_platform (example_world ''{"rows": []}'') input_file = Inr []
   \<and> fst (main example_platform (example_world ''{"rows": []}'')) = None
   \<and> files (snd (main example_platform (example_world ''{"rows": []}''))) excel_output =
       Some (ExcelFile \<lparr>columns = [], cells = []\<rparr>)
   \<and> columns \<lparr>columns = [], cells = []\<rparr> \<noteq> output_fields\<close>
proof -
  let ?w = \<open>example_world ''{"rows": []}''\<close>
  have h1: "pandas ?w" and h2: "openpyxl ?w" by (simp_all add: example_world_def)
  have h4: "excel_error example_platform (DataFrame []) excel_output = None"
    by (simp add: example_platform_def)
  have "open_error example_platform json_output = None" by (simp add: example_platform_def)
  with main_no_records [OF h1 h2 example_process_empty h4] example_process_empty
  show ?thesis by (simp add: output_fields_def)
qed

text \<open>
  Claim C4, amended. For a document without a \<^verbatim>\<open>rows\<close> key and for one whose \<^verbatim>\<open>rows\<close> is
  the empty list, \<^verbatim>\<open>process_products\<close> returns the empty list and the spreadsheet is still
  written, with no data row and no header cell: the frame takes its columns from the keys
  of the records, and there is none. The header of the seven field names is written as
  soon as there is at least one record, with one data row per record.
\<close>

theorem empty_rows_artifact:
  assumes "pandas w" and "openpyxl w"
    and "load_json p w input_file = Inr (JObj doc)"
    and "map_of doc ''rows'' = None \<or> map_of doc ''rows'' = Some (JList [])"
    and "excel_error p (DataFrame []) excel_output = None"
  shows "process_products p w input_file = Inr []
         \<and> fst (main p w) = open_error p json_output
         \<and> files (snd (main p w)) excel_output = Some (ExcelFile \<lparr>columns = [], cells = []\<rparr>)
         \<and> (process_data p data = Inr out \<and> out \<noteq> [] \<longrightarrow>
              columns (DataFrame out) = output_fields
              \<and> length (cells (DataFrame out)) = length out)"
proof -
  have pp: "process_products p w input_file = Inr []"
    using assms(3,4) by (simp add: process_products_def bind_err_def process_data_no_rows)
  have "columns (DataFrame out) = output_fields \<and> length (cells (DataFrame out)) = length out"
    if "process_data p data = Inr out" "out \<noteq> []"
  proof -
    from that(1) have "\<forall>d \<in> set out. map fst d = output_fields"
      by (auto dest: process_data_fields)
    then show ?thesis using that(2) by (simp add: DataFrame_columns)
  qed
  with pp main_no_records [OF assms(1,2) pp assms(5)] show ?thesis by blast
qed

theorem empty_rows_artifact_witness:
  "process_products example_platform (example_world ''{}'') input_file = Inr []
   \<and> fst (main example_platform (example_world ''{}'')) = None
   \<and> files (snd (main example_platform (example_world ''{}''))) excel_output =
       Some (ExcelFile \<lparr>columns = [], cells = []\<rparr>)
   \<and> columns (DataFrame
        [[(''productName'', JStr ''Widget''), (''productKey'', JStr ''''),
          (''productId'', JInt 7), (''productVendorId'', JStr ''''),
          (''categoryName'', JStr ''''), (''categoryValue'', JStr ''''),
          (''createdTime'', JStr ''2023-11-14 22:13:20'')]]) = output_fields"
proof -
  let ?w = "example_world ''{}''"
  let ?out = "[[(''productName'', JStr ''Widget''), (''productKey'', JStr ''''),
          (''productId'', JInt 7), (''productVendorId'', JStr ''''),
          (''categoryName'', JStr ''''), (''categoryValue'', JStr ''''),
          (''createdTime'', JStr ''2023-11-14 22:13:20'')]]"
  have h1: "pandas ?w" and h2: "openpyxl ?w" by (simp_all add: example_world_def)
  have h3: "load_json example_platform ?w input_file = Inr (JObj [])"
    by (simp add: load_json_def example_world_def example_platform_def example_documents_def)
  have h4: "map_of [] ''rows'' = None \<or> map_of [] ''rows'' = Some (JList [])" by simp
  have h5: "excel_error example_platform (DataFrame []) excel_output = None"
    by (simp add: example_platform_def)
  have h6: "process_data example_platform (rows_document [JObj widget]) = Inr ?out \<and> ?out \<noteq> []"
    by (simp add: process_data_rows_document process_loop_single example_process_widget
        bind_err_def)
  have h7: "open_error example_platform json_output = None" by (simp add: example_platform_def)
  from empty_rows_artifact [OF h1 h2 h3 h4 h5, of "rows_document [JObj widget]" ?out] h6 h7
  show ?thesis by simp
qed

section \<open>Writing the JSON artifact and reading it back\<close>







end
